theory Spec2Isabelle
  imports Main
begin

section \<open>Python values used by the source\<close>

text \<open>
  Text is modelled as \<^typ>\<open>string\<close>: one \<^typ>\<open>char\<close> per code point, which covers the
  code points below 256 (ASCII and the non-breaking space \<open>0xA0\<close> that the patterns of the
  source use).  Every exception the modelled code can raise is a value of \<open>error\<close>, and a
  function that can raise returns \<open>error + 'a\<close> with \<open>Inl\<close> for the exception.
  \<open>Unmodelled\<close> is not a Python exception: it marks the two places where pandas returns
  an object this embedding does not follow (a column name or a row label that occurs more
  than once makes \<open>df[name]\<close> a sub-frame and \<open>.ix[label]\<close> a sub-series).
\<close>

datatype error =
  IndexError | KeyError | ValueError | TypeError | AttributeError
  | AssertionError | UnboundLocalError | UnicodeEncodeError | Unmodelled

definition nbsp :: char where
  "nbsp = CHR 0xA0"

definition is_digit :: "char \<Rightarrow> bool" where
  "is_digit c = (48 \<le> (of_char c :: nat) \<and> (of_char c :: nat) \<le> 57)"

definition is_alpha :: "char \<Rightarrow> bool" where
  "is_alpha c = ((65 \<le> (of_char c :: nat) \<and> (of_char c :: nat) \<le> 90) \<or>
                 (97 \<le> (of_char c :: nat) \<and> (of_char c :: nat) \<le> 122))"

text \<open>
  A text with a code point above 127 is a \<open>unicode\<close> object in Python 2, any other text
  that lxml returns is a \<open>str\<close>.  The white space that \<open>int\<close> skips depends on that: a
  \<open>str\<close> has the six ASCII white space characters, a \<open>unicode\<close> also the separators
  \<open>0x1C\<close> to \<open>0x1F\<close>, \<open>0x85\<close> and the non-breaking space.
\<close>

definition is_unicode :: "string \<Rightarrow> bool" where
  "is_unicode s = list_ex (\<lambda>c. 128 \<le> (of_char c :: nat)) s"

definition is_space :: "bool \<Rightarrow> char \<Rightarrow> bool" where
  "is_space uni c =
     (of_char c \<in> set [9, 10, 11, 12, 13, 32 :: nat] \<or>
      (uni \<and> of_char c \<in> set [28, 29, 30, 31, 133, 160 :: nat]))"

definition digits_val :: "string \<Rightarrow> nat" where
  "digits_val ds = foldl (\<lambda>a c. 10 * a + (of_char c - 48)) 0 ds"

text \<open>
  \<open>int(s)\<close> on a text: surrounding white space is ignored, one sign is allowed, the rest
  must be a non-empty run of decimal digits; anything else raises \<open>ValueError\<close>
  (\<open>None\<close> here, turned into the error by the caller).
\<close>

definition py_int :: "string \<Rightarrow> int option" where
  "py_int s =
     (let sp = is_space (is_unicode s);
          t = rev (dropWhile sp (rev (dropWhile sp s)));
          neg = (t \<noteq> [] \<and> hd t = CHR ''-'');
          ds = (if t \<noteq> [] \<and> (hd t = CHR ''-'' \<or> hd t = CHR ''+'') then tl t else t)
      in if ds \<noteq> [] \<and> list_all is_digit ds
         then Some (if neg then - int (digits_val ds) else int (digits_val ds))
         else None)"

text \<open>\<open>sep.join(xs)\<close>\<close>

fun join :: "string \<Rightarrow> string list \<Rightarrow> string" where
  "join sep [] = []"
| "join sep [x] = x"
| "join sep (x # y # ys) = x @ sep @ join sep (y # ys)"

text \<open>The slice \<open>xs[i:]\<close>: a negative start counts from the end and is clipped at 0.\<close>

definition slice_from :: "int \<Rightarrow> 'a list \<Rightarrow> 'a list" where
  "slice_from i xs =
     (if i < 0 then drop (nat (int (length xs) + i)) xs else drop (nat i) xs)"

section \<open>Header resolution: \<open>League._parseHeaders\<close>\<close>

text \<open>
  A column name is an integer (the synthetic \<open>noname\<close> counter, or a default column
  number) or a text.
\<close>

datatype label = IntL int | StrL string

text \<open>
  A \<open>td\<close> element as \<open>_parseHeaders\<close> reads it: \<open>texts\<close> is \<open>td.xpath('.//text()')\<close> and
  \<open>colspan\<close> is \<open>td.attrib['colspan']\<close> when the attribute is present.
\<close>

record td =
  texts :: "string list"
  colspan :: "string option"

text \<open>
  The table as \<open>_parseHeaders\<close> reads it: \<open>heads\<close> holds the \<open>.text\<close> of every element the
  first query finds, \<open>subHeads\<close> the \<open>td\<close> elements of every \<open>tableSubHead\<close> row.
\<close>

record table_markup =
  heads :: "string option list"
  subHeads :: "td list list"

text \<open>The body of the loop over the cells of one sub-header row (lines 196-210).\<close>

fun scan_td :: "label list \<times> int \<Rightarrow> td \<Rightarrow> error + (label list \<times> int)" where
  "scan_td (subHeadRow, noname) c =
     (if texts c = [] then Inr (subHeadRow @ [IntL noname], noname + 1)
      else case colspan c of
             Some s \<Rightarrow>
               (case py_int s of
                  None \<Rightarrow> Inl ValueError
                | Some k \<Rightarrow> Inr (subHeadRow @ replicate (nat k) (IntL noname), noname + 1))
           | None \<Rightarrow> Inr (subHeadRow @ [StrL (join '' '' (texts c))], noname))"

fun scan_tds :: "label list \<times> int \<Rightarrow> td list \<Rightarrow> error + (label list \<times> int)" where
  "scan_tds st [] = Inr st"
| "scan_tds st (c # cs) =
     (case scan_td st c of Inl e \<Rightarrow> Inl e | Inr st' \<Rightarrow> scan_tds st' cs)"

text \<open>Lines 216-217: \<open>n = len(subHead1) - 2 - len(subHeadRow)\<close> and the splice.\<close>

definition merge_subheads :: "label list \<Rightarrow> label list \<Rightarrow> label list" where
  "merge_subheads subHead1 subHeadRow =
     (let n = int (length subHead1) - 2 - int (length subHeadRow)
      in take 2 subHead1 @ subHeadRow @ slice_from (- n) subHead1)"

text \<open>
  \<open>_parseHeaders\<close>.  \<open>noname\<close> starts at 10 and is carried from the first row into the
  second.  With two rows the result is the splice; otherwise the first row's text nodes,
  flattened (\<open>subHeads[0]\<close> raises \<open>IndexError\<close> when there is no row).
\<close>

definition parseHeaders :: "table_markup \<Rightarrow> error + (string option \<times> label list)" where
  "parseHeaders t =
     (case heads t of
        [] \<Rightarrow> Inl IndexError
      | head # _ \<Rightarrow>
          if length (subHeads t) > 2 then Inl AssertionError
          else (case subHeads t of
                  [r1, r2] \<Rightarrow>
                    (case scan_tds ([], 10) r1 of
                       Inl e \<Rightarrow> Inl e
                     | Inr (subHead1, noname1) \<Rightarrow>
                         (case scan_tds ([], noname1) r2 of
                            Inl e \<Rightarrow> Inl e
                          | Inr (subHeadRow, noname2) \<Rightarrow>
                              Inr (head, merge_subheads subHead1 subHeadRow)))
                | [] \<Rightarrow> Inl IndexError
                | r # _ \<Rightarrow> Inr (head, concat (map (\<lambda>x. map StrL (texts x)) r))))"

section \<open>Regular expressions: the fragment of \<open>re\<close> the source uses\<close>

text \<open>
  The patterns of the source are built from literal characters, \<open>.\<close>, \<open>\w\<close>, \<open>\d\<close>,
  the greedy \<open>+\<close> and the lazy \<open>+?\<close> on one such character class, sequence, \<open>|\<close>,
  capturing groups, \<open>^\<close> and \<open>$\<close>.  They are compiled without flags, so \<open>\w\<close> is
  \<open>[A-Za-z0-9_]\<close>, \<open>.\<close> is any character but the newline, and \<open>$\<close> matches at the end
  of the text or before a final newline.
\<close>

datatype cclass = AnyC | WordC | DigitC | LitC char

datatype regex =
  Ch cclass | Plus cclass | PlusLazy cclass | Seq regex regex | Alt regex regex
  | Group nat regex | Bol | Eol | Eps

fun in_class :: "cclass \<Rightarrow> char \<Rightarrow> bool" where
  "in_class AnyC c = (c \<noteq> CHR 0x0A)"
| "in_class WordC c = (is_alpha c \<or> is_digit c \<or> c = CHR ''_'')"
| "in_class DigitC c = is_digit c"
| "in_class (LitC d) c = (c = d)"

text \<open>A literal text inside a pattern.\<close>

fun lit :: "string \<Rightarrow> regex" where
  "lit [] = Eps"
| "lit [c] = Ch (LitC c)"
| "lit (c # cs) = Seq (Ch (LitC c)) (lit cs)"

text \<open>
  A matcher state is the position reached, the text still to read and the groups captured
  so far (the latest capture of a group first).  \<open>rmatch r st\<close> lists every way \<open>r\<close> can
  match from \<open>st\<close>, in the order a backtracking matcher tries them: the head of the list
  is the match \<open>re\<close> reports.  A greedy \<open>+\<close> tries the longest run first, a lazy one the
  shortest.
\<close>

type_synonym mstate = "nat \<times> string \<times> (nat \<times> string) list"

fun rmatch :: "regex \<Rightarrow> mstate \<Rightarrow> mstate list" where
  "rmatch (Ch k) (p, s, g) =
     (case s of [] \<Rightarrow> [] | c # t \<Rightarrow> if in_class k c then [(Suc p, t, g)] else [])"
| "rmatch (Plus k) (p, s, g) =
     map (\<lambda>n. (p + n, drop n s, g)) (rev [1 ..< Suc (length (takeWhile (in_class k) s))])"
| "rmatch (PlusLazy k) (p, s, g) =
     map (\<lambda>n. (p + n, drop n s, g)) [1 ..< Suc (length (takeWhile (in_class k) s))]"
| "rmatch (Seq a b) st = concat (map (rmatch b) (rmatch a st))"
| "rmatch (Alt a b) st = rmatch a st @ rmatch b st"
| "rmatch (Group i r) (p, s, g) =
     map (\<lambda>(p', s', g'). (p', s', (i, take (p' - p) s) # g')) (rmatch r (p, s, g))"
| "rmatch Bol (p, s, g) = (if p = 0 then [(p, s, g)] else [])"
| "rmatch Eol (p, s, g) = (if s = [] \<or> s = [CHR 0x0A] then [(p, s, g)] else [])"
| "rmatch Eps st = [st]"

text \<open>
  \<open>re.search\<close> from position \<open>p\<close> of a text whose unread part is \<open>s\<close>: the first start
  position with a match, as (start, end, groups).
\<close>

fun search_from :: "regex \<Rightarrow> nat \<Rightarrow> string \<Rightarrow> (nat \<times> nat \<times> (nat \<times> string) list) option" where
  "search_from r p s =
     (case rmatch r (p, s, []) of
        (e, _, g) # _ \<Rightarrow> Some (p, e, g)
      | [] \<Rightarrow> (case s of [] \<Rightarrow> None | _ # t \<Rightarrow> search_from r (Suc p) t))"

definition re_search :: "regex \<Rightarrow> string \<Rightarrow> (nat \<times> nat \<times> (nat \<times> string) list) option" where
  "re_search r s = search_from r 0 s"

text \<open>\<open>re.match\<close>: a match that starts at position 0.\<close>

definition re_match :: "regex \<Rightarrow> string \<Rightarrow> bool" where
  "re_match r s = (rmatch r (0, s, []) \<noteq> [])"

text \<open>
  The groups 1..n of a match as \<open>findall\<close> reports them: a group that took no part in the
  match is the empty text.
\<close>

definition groups_tuple :: "nat \<Rightarrow> (nat \<times> string) list \<Rightarrow> string list" where
  "groups_tuple n g = map (\<lambda>i. case map_of g i of None \<Rightarrow> [] | Some v \<Rightarrow> v) [1 ..< Suc n]"

text \<open>
  \<open>re.findall\<close> for a pattern with \<open>n\<close> groups: the matches from left to right, each
  search starting where the last match ended (one further after an empty match).
\<close>

function findall_from :: "regex \<Rightarrow> nat \<Rightarrow> string \<Rightarrow> nat \<Rightarrow> string list list" where
  "findall_from r n s p =
     (if length s < p then []
      else (case rmatch r (p, drop p s, []) of
              [] \<Rightarrow> findall_from r n s (Suc p)
            | (e, _, g) # _ \<Rightarrow>
                groups_tuple n g # findall_from r n s (if e \<le> p then Suc p else e)))"
  by pat_completeness auto
termination
  by (relation "measure (\<lambda>(r, n, s, p). Suc (length s) - p)") auto

definition findall :: "regex \<Rightarrow> nat \<Rightarrow> string \<Rightarrow> string list list" where
  "findall r n s = findall_from r n s 0"

text \<open>\<open>s.replace(old, new)\<close> for a non-empty \<open>old\<close>: left to right, without overlap.\<close>

function replace :: "string \<Rightarrow> string \<Rightarrow> string \<Rightarrow> string" where
  "replace old new [] = []"
| "replace old new (c # cs) =
     (if old \<noteq> [] \<and> take (length old) (c # cs) = old
      then new @ replace old new (drop (length old - 1) cs)
      else c # replace old new cs)"
  by pat_completeness auto
termination
  by (relation "measure (\<lambda>(old, new, s). length s)") auto

text \<open>\<open>s.split(sep)\<close> for a non-empty \<open>sep\<close>.\<close>

function split_acc :: "string \<Rightarrow> string \<Rightarrow> string \<Rightarrow> string list" where
  "split_acc sep cur [] = [rev cur]"
| "split_acc sep cur (c # cs) =
     (if sep \<noteq> [] \<and> take (length sep) (c # cs) = sep
      then rev cur # split_acc sep [] (drop (length sep - 1) cs)
      else split_acc sep (c # cur) cs)"
  by pat_completeness auto
termination
  by (relation "measure (\<lambda>(sep, cur, s). length s)") auto

definition split :: "string \<Rightarrow> string \<Rightarrow> string list" where
  "split sep s = split_acc sep [] s"

text \<open>The patterns of the source, group by group.\<close>

text \<open>
  Lines 58-59:
  \<^verbatim>\<open>(?P<PLAYER>.+?), (?P<TEAM>\w+)\xa0(?P<POS>\w+)(?P<KEEPER>\xa0\xa0K$|$)\<close>
\<close>

definition draft_reStr :: regex where
  "draft_reStr =
     Seq (Group 1 (PlusLazy AnyC))
    (Seq (lit '', '')
    (Seq (Group 2 (Plus WordC))
    (Seq (Ch (LitC nbsp))
    (Seq (Group 3 (Plus WordC))
         (Group 4 (Alt (Seq (lit [nbsp, nbsp, CHR ''K'']) Eol) Eol))))))"

text \<open>
  Lines 140-141:
  \<^verbatim>\<open>^(?P<PLAYER>.+?), (?P<TEAM>\w+)\xa0(?P<POS>.+?)(?P<DTD>$|\xa0\xa0DTD$)\<close>
\<close>

definition stats_reStr :: regex where
  "stats_reStr =
     Seq Bol
    (Seq (Group 1 (PlusLazy AnyC))
    (Seq (lit '', '')
    (Seq (Group 2 (Plus WordC))
    (Seq (Ch (LitC nbsp))
    (Seq (Group 3 (PlusLazy AnyC))
         (Group 4 (Alt Eol (Seq (lit ([nbsp, nbsp] @ ''DTD'')) Eol))))))))"

text \<open>The column names \<open>str.extract\<close> gives the four named groups.\<close>

definition draft_groups :: "string list" where
  "draft_groups = [''PLAYER'', ''TEAM'', ''POS'', ''KEEPER'']"

definition stats_groups :: "string list" where
  "stats_groups = [''PLAYER'', ''TEAM'', ''POS'', ''DTD'']"

text \<open>\<^verbatim>\<open>(Waivers|Free Agency)\<close> as group \<open>i\<close>.\<close>

definition waivers_or_fa :: "nat \<Rightarrow> regex" where
  "waivers_or_fa i = Group i (Alt (lit ''Waivers'') (lit ''Free Agency''))"

text \<open>\<^verbatim>\<open>(\w+) dropped (.+?), \w+ \w+ to (Waivers|Free Agency)\<close>, groups from \<open>i\<close>.\<close>

definition dropped_re :: "nat \<Rightarrow> regex" where
  "dropped_re i =
     Seq (Group i (Plus WordC))
    (Seq (lit '' dropped '')
    (Seq (Group (i + 1) (PlusLazy AnyC))
    (Seq (lit '', '')
    (Seq (Plus WordC)
    (Seq (lit '' '')
    (Seq (Plus WordC)
    (Seq (lit '' to '') (waivers_or_fa (i + 2)))))))))"

text \<open>\<^verbatim>\<open>(\w+) added (.+?), \w+ \w+ from (Waivers|Free Agency)\<close>, groups from \<open>i\<close>.\<close>

definition added_re :: "nat \<Rightarrow> regex" where
  "added_re i =
     Seq (Group i (Plus WordC))
    (Seq (lit '' added '')
    (Seq (Group (i + 1) (PlusLazy AnyC))
    (Seq (lit '', '')
    (Seq (Plus WordC)
    (Seq (lit '' '')
    (Seq (Plus WordC)
    (Seq (lit '' from '') (waivers_or_fa (i + 2)))))))))"

text \<open>Lines 309-310, 315, 320 and 324.\<close>

definition addDropStr :: regex where
  "addDropStr = Alt (dropped_re 1) (added_re 4)"

definition addStr :: regex where
  "addStr = added_re 1"

definition dropStr :: regex where
  "dropStr = dropped_re 1"

definition tradeStr :: regex where
  "tradeStr =
     Seq (Group 1 (Plus WordC))
    (Seq (lit '' traded '')
    (Seq (Group 2 (PlusLazy AnyC))
    (Seq (lit '', '')
    (Seq (Plus WordC)
    (Seq (lit '' '')
    (Seq (Plus WordC)
    (Seq (lit '' to '') (Group 3 (Plus WordC)))))))))"

definition addDropKey :: string where
  "addDropKey = ''Transaction'' @ [nbsp, nbsp] @ ''Add/Drop''"

definition addKey :: string where
  "addKey = ''Transaction'' @ [nbsp, nbsp] @ ''Add''"

definition dropKey :: string where
  "dropKey = ''Transaction'' @ [nbsp, nbsp] @ ''Drop''"

definition tradeKey :: string where
  "tradeKey = ''Transaction'' @ [nbsp, nbsp] @ ''Trade Processed''"

section \<open>pandas data frames\<close>

text \<open>
  A cell is missing (\<open>NaN\<close>), a text, a number, a boolean, a list of texts (the split
  \<open>POS\<close> column) or a list of tuples of texts (the \<open>TRANSACTION\<close> column).  The numbers
  are left abstract: \<open>pd.to_numeric\<close> reads a text with the library's parser, which is a
  parameter \<open>P\<close> of every function that calls it.  \<open>P s\<close> says that \<open>s\<close> is not a number,
  that it reads as a missing value (the empty text), or which number it is.
\<close>

datatype 'n cell =
  NaN | Str string | Num 'n | Bool bool | Lst "string list" | Tuples "string list list"

datatype 'n numeric = NotNumeric | Missing | Number 'n

text \<open>
  A frame is its column names and its rows, each row with its index label.  A frame that
  \<open>pd.read_html\<close> returns has the labels 0, 1, 2, ... in order.  A series is a column
  with the labels of its rows.
\<close>

record 'n frame =
  columns :: "label list"
  rws :: "(int \<times> 'n cell list) list"

type_synonym 'n series = "(int \<times> 'n cell) list"

definition read_html :: "label list \<Rightarrow> 'n cell list list \<Rightarrow> 'n frame" where
  "read_html cs body = \<lparr>columns = cs, rws = zip (map int [0 ..< length body]) body\<rparr>"

fun and_then :: "error + 'a \<Rightarrow> ('a \<Rightarrow> error + 'b) \<Rightarrow> error + 'b" where
  "and_then (Inl e) f = Inl e"
| "and_then (Inr x) f = f x"

text \<open>A list of results is the list of the values, or the first error.\<close>

fun collect :: "(error + 'a) list \<Rightarrow> error + 'a list" where
  "collect [] = Inr []"
| "collect (x # xs) = and_then x (\<lambda>v. and_then (collect xs) (\<lambda>vs. Inr (v # vs)))"

definition index :: "'n frame \<Rightarrow> int list" where
  "index df = map fst (rws df)"

definition cell_at :: "'n cell list \<Rightarrow> nat \<Rightarrow> 'n cell" where
  "cell_at r i = (if i < length r then r ! i else NaN)"

text \<open>A row read at the first \<open>n\<close> column positions.\<close>

definition pad :: "nat \<Rightarrow> 'n cell list \<Rightarrow> 'n cell list" where
  "pad n r = map (cell_at r) [0 ..< n]"

definition positions :: "label \<Rightarrow> label list \<Rightarrow> nat list" where
  "positions l cs = filter (\<lambda>i. cs ! i = l) [0 ..< length cs]"

text \<open>The column at position \<open>i\<close>, as a series and as its cells.\<close>

definition column_at :: "'n frame \<Rightarrow> nat \<Rightarrow> 'n series" where
  "column_at df i = map (\<lambda>(k, r). (k, cell_at r i)) (rws df)"

definition cells_at :: "'n frame \<Rightarrow> nat \<Rightarrow> 'n cell list" where
  "cells_at df i = map (\<lambda>(k, r). cell_at r i) (rws df)"

text \<open>\<open>df.iloc[:, i]\<close>\<close>

definition iloc_col :: "'n frame \<Rightarrow> nat \<Rightarrow> error + 'n series" where
  "iloc_col df i = (if i < length (columns df) then Inr (column_at df i) else Inl IndexError)"

text \<open>\<open>df[l]\<close>\<close>

definition getcol :: "'n frame \<Rightarrow> label \<Rightarrow> error + 'n series" where
  "getcol df l =
     (case positions l (columns df) of
        [] \<Rightarrow> Inl KeyError
      | [i] \<Rightarrow> Inr (column_at df i)
      | _ \<Rightarrow> Inl Unmodelled)"

text \<open>\<open>ser.ix[k]\<close> on a series with integer labels: by label, never by position.\<close>

definition ix :: "'n series \<Rightarrow> int \<Rightarrow> error + 'n cell" where
  "ix ser k =
     (case filter (\<lambda>(l, v). l = k) ser of
        [] \<Rightarrow> Inl KeyError
      | [(l, v)] \<Rightarrow> Inr v
      | _ \<Rightarrow> Inl Unmodelled)"

text \<open>
  \<open>df[l] = vs\<close> for values in row order: every column named \<open>l\<close> is overwritten, and a
  new column is appended when there is none.
\<close>

definition put :: "label list \<Rightarrow> label \<Rightarrow> 'n cell list \<Rightarrow> 'n cell \<Rightarrow> 'n cell list" where
  "put cs l r v =
     (if l \<in> set cs then map (\<lambda>i. if cs ! i = l then v else cell_at r i) [0 ..< length cs]
      else pad (length cs) r @ [v])"

definition setcol :: "'n frame \<Rightarrow> label \<Rightarrow> 'n cell list \<Rightarrow> 'n frame" where
  "setcol df l vs =
     \<lparr>columns = (if l \<in> set (columns df) then columns df else columns df @ [l]),
      rws = map (\<lambda>((k, r), v). (k, put (columns df) l r v)) (zip (rws df) vs)\<rparr>"

text \<open>\<open>df[l] = v\<close> for one value \<open>v\<close>.\<close>

definition setcol_const :: "'n frame \<Rightarrow> label \<Rightarrow> 'n cell \<Rightarrow> 'n frame" where
  "setcol_const df l v = setcol df l (replicate (length (rws df)) v)"

text \<open>\<open>df[l] = xs\<close> for a Python list: its length must be the number of rows.\<close>

definition setcol_list :: "'n frame \<Rightarrow> label \<Rightarrow> 'n cell list \<Rightarrow> error + 'n frame" where
  "setcol_list df l vs =
     (if length vs = length (rws df) then Inr (setcol df l vs) else Inl ValueError)"

text \<open>
  \<open>df.drop(labels, inplace=True)\<close>: a label that is not in the index is an error
  (\<open>KeyError\<close>; pandas before 0.21 raises \<open>ValueError\<close> there).
\<close>

definition drop_rows :: "'n frame \<Rightarrow> int list \<Rightarrow> error + 'n frame" where
  "drop_rows df ls =
     (if list_all (\<lambda>l. l \<in> set (index df)) ls
      then Inr (df\<lparr>rws := filter (\<lambda>(k, r). k \<notin> set ls) (rws df)\<rparr>)
      else Inl KeyError)"

text \<open>\<open>df.drop(labels, axis=1, inplace=True)\<close>\<close>

definition drop_cols :: "'n frame \<Rightarrow> label list \<Rightarrow> error + 'n frame" where
  "drop_cols df ls =
     (if list_all (\<lambda>l. l \<in> set (columns df)) ls
      then (let ps = filter (\<lambda>i. columns df ! i \<notin> set ls) [0 ..< length (columns df)]
            in Inr \<lparr>columns = map (\<lambda>i. columns df ! i) ps,
                    rws = map (\<lambda>(k, r). (k, map (cell_at r) ps)) (rws df)\<rparr>)
      else Inl KeyError)"

text \<open>\<open>df[[l1, l2, ...]]\<close>\<close>

definition take_cols :: "'n frame \<Rightarrow> label list \<Rightarrow> error + 'n frame" where
  "take_cols df ls =
     (if list_all (\<lambda>l. l \<in> set (columns df)) ls
      then (let ps = concat (map (\<lambda>l. positions l (columns df)) ls)
            in Inr \<lparr>columns = map (\<lambda>i. columns df ! i) ps,
                    rws = map (\<lambda>(k, r). (k, map (cell_at r) ps)) (rws df)\<rparr>)
      else Inl KeyError)"

text \<open>
  \<open>df.select(crit, axis=1)\<close>: \<open>crit\<close>, which may raise, is called on every column name,
  and the frame is reindexed by the names that satisfy it.  When every name is kept the
  result is a copy.  Otherwise pandas reindexes by label, which raises \<open>ValueError\<close>
  (cannot reindex from a duplicate axis) when the column names are not unique and at
  least one name is kept; on unique names it gives the kept columns.
\<close>

definition select_cols :: "'n frame \<Rightarrow> (label \<Rightarrow> error + bool) \<Rightarrow> error + 'n frame" where
  "select_cols df crit =
     and_then (collect (map crit (columns df))) (\<lambda>keep.
       let ps = filter (\<lambda>i. keep ! i) [0 ..< length (columns df)];
           new_axis = map (\<lambda>i. columns df ! i) ps
       in if new_axis \<noteq> columns df \<and> \<not> distinct (columns df) \<and> new_axis \<noteq> []
          then Inl ValueError
          else Inr \<lparr>columns = new_axis,
                    rws = map (\<lambda>(k, r). (k, map (cell_at r) ps)) (rws df)\<rparr>)"

text \<open>
  \<open>df.join(other)\<close> for a frame \<open>other\<close> with the same index, given by its column names
  and its rows: a shared column name raises \<open>ValueError\<close>.
\<close>

definition join_cols :: "'n frame \<Rightarrow> label list \<Rightarrow> 'n cell list list \<Rightarrow> error + 'n frame" where
  "join_cols df ls ext =
     (if list_ex (\<lambda>l. l \<in> set (columns df)) ls then Inl ValueError
      else Inr \<lparr>columns = columns df @ ls,
                rws = map (\<lambda>((k, r), e). (k, pad (length (columns df)) r @ e))
                        (zip (rws df) ext)\<rparr>)"

text \<open>
  \<open>ser.str.extract(pattern, expand=True)\<close> for a pattern with \<open>n\<close> groups, one row: a
  cell that is not a text, a text without a match and a group that took no part in the
  match give \<open>NaN\<close>.
\<close>

definition extract_cell :: "regex \<Rightarrow> nat \<Rightarrow> 'n cell \<Rightarrow> 'n cell list" where
  "extract_cell r n c =
     (case c of
        Str s \<Rightarrow>
          (case re_search r s of
             None \<Rightarrow> replicate n NaN
           | Some (b, e, g) \<Rightarrow>
               map (\<lambda>i. case map_of g i of None \<Rightarrow> NaN | Some v \<Rightarrow> Str v) [1 ..< Suc n])
      | _ \<Rightarrow> replicate n NaN)"

text \<open>
  \<open>pd.to_numeric\<close> on one cell.  Only texts, numbers and missing cells reach it in the
  source (it runs before any boolean or list cell is made); the other cells are taken as
  not convertible.
\<close>

fun num_cell :: "(string \<Rightarrow> 'n numeric) \<Rightarrow> 'n cell \<Rightarrow> 'n cell option" where
  "num_cell P NaN = Some NaN"
| "num_cell P (Num x) = Some (Num x)"
| "num_cell P (Str s) =
     (case P s of NotNumeric \<Rightarrow> None | Missing \<Rightarrow> Some NaN | Number x \<Rightarrow> Some (Num x))"
| "num_cell P (Bool b) = None"
| "num_cell P (Lst xs) = None"
| "num_cell P (Tuples ts) = None"

text \<open>\<open>pd.to_numeric(ser)\<close>: \<open>ValueError\<close> when a cell cannot be read.\<close>

definition to_numeric :: "(string \<Rightarrow> 'n numeric) \<Rightarrow> 'n cell list \<Rightarrow> error + 'n cell list" where
  "to_numeric P cs =
     (if list_all (\<lambda>c. num_cell P c \<noteq> None) cs then Inr (map (\<lambda>c. the (num_cell P c)) cs)
      else Inl ValueError)"

text \<open>\<open>pd.to_numeric(ser, errors='ignore')\<close>: the column itself when a cell cannot be read.\<close>

definition to_numeric_ignore :: "(string \<Rightarrow> 'n numeric) \<Rightarrow> 'n cell list \<Rightarrow> 'n cell list" where
  "to_numeric_ignore P cs =
     (if list_all (\<lambda>c. num_cell P c \<noteq> None) cs then map (\<lambda>c. the (num_cell P c)) cs
      else cs)"

text \<open>Python's truth value of a cell (\<open>nan\<close> is a non-zero float, so it is true).\<close>

fun truthy :: "('n::zero) cell \<Rightarrow> bool" where
  "truthy NaN = True"
| "truthy (Str s) = (s \<noteq> [])"
| "truthy (Num x) = (x \<noteq> 0)"
| "truthy (Bool b) = b"
| "truthy (Lst xs) = (xs \<noteq> [])"
| "truthy (Tuples ts) = (ts \<noteq> [])"

section \<open>Draft tables\<close>

text \<open>
  The formatters change the frame they are given (\<open>inplace=True\<close>, \<open>df[name] = ...\<close>)
  before they rebind \<open>df\<close> to a new frame.  A formatter therefore returns a pair: the
  caller's frame as the call leaves it, and the frame it returns.  When the source raises,
  the model gives the exception and not the frame as it was left.

  \<open>ser.str\<close> raises \<open>AttributeError\<close> on a column whose dtype is numeric.  The frames here
  carry no dtypes, so that check is not modelled: the text methods treat every cell that
  is not a text as pandas treats it in a column of dtype \<open>object\<close>.
\<close>

definition keeper_mark :: string where
  "keeper_mark = [nbsp, nbsp, CHR ''K'']"

text \<open>\<open>League._formatAuctionDraftTable\<close>, lines 57-64.\<close>

definition formatAuctionDraftTable :: "('n::zero) frame \<Rightarrow> error + 'n frame" where
  "formatAuctionDraftTable df =
     and_then (getcol df (IntL 1)) (\<lambda>c1.
     and_then (join_cols df (map StrL draft_groups)
                 (map (\<lambda>(k, c). extract_cell draft_reStr 4 c) c1)) (\<lambda>df1.
     and_then (getcol df1 (StrL ''KEEPER'')) (\<lambda>k1.
     let df2 = setcol df1 (StrL ''KEEPER'')
                 (map (\<lambda>(k, c). if c = Str keeper_mark then Bool True else c) k1) in
     and_then (getcol df2 (StrL ''KEEPER'')) (\<lambda>k2.
     let df3 = setcol df2 (StrL ''KEEPER'')
                 (map (\<lambda>(k, c). if \<not> truthy c then Bool False else c) k2) in
     drop_cols df3 [IntL 0, IntL 1, IntL 2]))))"

text \<open>\<open>x[1:]\<close> on a cell: a float, an integer or a boolean has no slice.\<close>

fun slice1 :: "'n cell \<Rightarrow> error + 'n cell" where
  "slice1 (Str s) = Inr (Str (drop 1 s))"
| "slice1 (Lst xs) = Inr (Lst (drop 1 xs))"
| "slice1 (Tuples ts) = Inr (Tuples (drop 1 ts))"
| "slice1 NaN = Inl TypeError"
| "slice1 (Num x) = Inl TypeError"
| "slice1 (Bool b) = Inl TypeError"

definition auction_columns :: "label list" where
  "auction_columns =
     map StrL [''MANAGER'', ''PLAYER'', ''PICK'', ''TEAM'', ''POS'', ''PRICE'', ''KEEPER'']"

text \<open>\<open>League._formatAuctionTable\<close>, lines 66-79.\<close>

definition formatAuctionTable ::
  "(string \<Rightarrow> 'n numeric) \<Rightarrow> ('n::zero) frame \<Rightarrow> error + ('n frame \<times> 'n frame)" where
  "formatAuctionTable P df =
     and_then (getcol df (IntL 0)) (\<lambda>c0.
     and_then (ix c0 0) (\<lambda>manager.
     let df1 = setcol_const df (StrL ''MANAGER'') manager in
     and_then (drop_rows df1 [0]) (\<lambda>df2.
     and_then (getcol df2 (IntL 0)) (\<lambda>c0'.
     and_then (to_numeric P (map snd c0')) (\<lambda>pick.
     let df3 = setcol df2 (StrL ''PICK'') pick in
     and_then (getcol df3 (IntL 2)) (\<lambda>c2.
     and_then (collect (map (\<lambda>(k, c). slice1 c) c2)) (\<lambda>stripped.
     and_then (to_numeric P stripped) (\<lambda>price.
     let df4 = setcol df3 (StrL ''PRICE'') price in
     and_then (formatAuctionDraftTable df4) (\<lambda>df5.
     and_then (take_cols df5 auction_columns) (\<lambda>out.
     Inr (df4, out)))))))))))"

text \<open>\<open>x.replace(old, new)\<close> on a cell: only a text has the method.\<close>

definition replace_cell :: "string \<Rightarrow> string \<Rightarrow> 'n cell \<Rightarrow> error + 'n cell" where
  "replace_cell old new c =
     (case c of Str s \<Rightarrow> Inr (Str (replace old new s)) | _ \<Rightarrow> Inl AttributeError)"

definition draft_columns :: "label list" where
  "draft_columns =
     map StrL [''ROUND'', ''PICK'', ''MANAGER'', ''PLAYER'', ''TEAM'', ''POS'', ''KEEPER'']"

text \<open>Lines 86-94 of \<open>League._formatDraftTable\<close>, for a frame bound to the name \<open>df\<close>.\<close>

definition draftTable_lines ::
  "(string \<Rightarrow> 'n numeric) \<Rightarrow> ('n::zero) frame \<Rightarrow> error + ('n frame \<times> 'n frame)" where
  "draftTable_lines P df =
     and_then (getcol df (IntL 0)) (\<lambda>c0.
     and_then (ix c0 0) (\<lambda>label0.
     and_then (replace_cell ''ROUND '' [] label0) (\<lambda>rnd.
     and_then (drop_rows df [0]) (\<lambda>df1.
     let df2 = setcol_const df1 (StrL ''ROUND'') rnd in
     and_then (getcol df2 (IntL 0)) (\<lambda>c0'.
     and_then (to_numeric P (map snd c0')) (\<lambda>pick.
     let df3 = setcol df2 (StrL ''PICK'') pick in
     and_then (getcol df3 (IntL 2)) (\<lambda>c2.
     let df4 = setcol df3 (StrL ''MANAGER'') (map snd c2) in
     and_then (formatAuctionDraftTable df4) (\<lambda>df5.
     and_then (take_cols df5 draft_columns) (\<lambda>out.
     Inr (df4, out))))))))))"

text \<open>
  \<open>League._formatDraftTable(self, html)\<close>.  The parameter is named \<open>html\<close>; \<open>df\<close> is a
  local name of the function (line 91 assigns it) that is read at line 86 before any
  assignment, which raises \<open>UnboundLocalError\<close>.  The local name is modelled as an
  optional frame that is unbound on entry.
\<close>

definition formatDraftTable ::
  "(string \<Rightarrow> 'n numeric) \<Rightarrow> ('n::zero) frame \<Rightarrow> error + ('n frame \<times> 'n frame)" where
  "formatDraftTable P html =
     (let df = (None :: 'n frame option)
      in case df of None \<Rightarrow> Inl UnboundLocalError | Some d \<Rightarrow> draftTable_lines P d)"

text \<open>
  \<open>League._formatDraft\<close>, lines 96-101.  There is no \<open>else\<close> branch: for any other draft
  type the function ends without a \<open>return\<close>, so it returns Python's \<open>None\<close> and leaves the
  frame as it was.
\<close>

definition formatDraft ::
  "(string \<Rightarrow> 'n numeric) \<Rightarrow> ('n::zero) frame \<Rightarrow> string
     \<Rightarrow> error + ('n frame \<times> 'n frame option)" where
  "formatDraft P df draftType =
     (if draftType = ''Auction Draft''
      then and_then (formatAuctionTable P df) (\<lambda>(df', out). Inr (df', Some out))
      else if draftType = ''Snake Draft'' \<or> draftType = ''Offline Draft'' \<or>
              draftType = ''Autopick Draft''
      then and_then (formatDraftTable P df) (\<lambda>(df', out). Inr (df', Some out))
      else Inr (df, None))"

section \<open>Active stats\<close>

text \<open>
  The dtype of a column that \<open>read_html\<close> made is \<open>object\<close> exactly when it holds a cell
  that is neither a number nor missing.
\<close>

definition dtype_object :: "'n cell list \<Rightarrow> bool" where
  "dtype_object cs = list_ex (\<lambda>c. case c of NaN \<Rightarrow> False | Num x \<Rightarrow> False | _ \<Rightarrow> True) cs"

text \<open>A position of \<open>iloc\<close> among \<open>n\<close> rows: negative positions count from the end.\<close>

definition iloc_pos :: "nat \<Rightarrow> int \<Rightarrow> nat option" where
  "iloc_pos n p =
     (if 0 \<le> p \<and> p < int n then Some (nat p)
      else if - int n \<le> p \<and> p < 0 then Some (nat (int n + p))
      else None)"

text \<open>\<open>.replace(to_replace='--', value=np.nan)\<close> on one row.\<close>

definition replace_dashes :: "'n cell list \<Rightarrow> 'n cell list" where
  "replace_dashes r = map (\<lambda>c. if c = Str ''--'' then NaN else c) r"

text \<open>
  Line 137, \<open>df.iloc[rows] = df.iloc[rows].replace(to_replace='--', value=np.nan)\<close>:
  \<open>rows\<close> are read as positions; a position outside the frame raises \<open>IndexError\<close>.
\<close>

definition iloc_replace :: "'n frame \<Rightarrow> int list \<Rightarrow> error + 'n frame" where
  "iloc_replace df rows =
     (let n = length (rws df) in
      if list_all (\<lambda>p. iloc_pos n p \<noteq> None) rows
      then Inr (df\<lparr>rws :=
             map (\<lambda>(i, (k, r)).
                    if Some i \<in> set (map (iloc_pos n) rows)
                    then (k, replace_dashes (pad (length (columns df)) r)) else (k, r))
                 (zip [0 ..< n] (rws df))\<rparr>)
      else Inl IndexError)"

text \<open>\<open>df.apply(f)\<close> for an \<open>f\<close> from column to column.\<close>

definition apply_cols :: "('n cell list \<Rightarrow> 'n cell list) \<Rightarrow> 'n frame \<Rightarrow> 'n frame" where
  "apply_cols f df =
     (let n = length (columns df);
          cs = map (\<lambda>j. f (cells_at df j)) [0 ..< n]
      in \<lparr>columns = columns df,
          rws = map (\<lambda>(i, (k, r)). (k, map (\<lambda>j. cell_at (cs ! j) i) [0 ..< n]))
                  (zip [0 ..< length (rws df)] (rws df))\<rparr>)"

text \<open>
  Lines 134-139 of \<open>League._formatActiveStatsTable\<close>: the last row is dropped, the rows
  whose third cell is \<open>"--"\<close> have their \<open>"--"\<close> cells replaced, and every column goes
  through \<open>pd.to_numeric(errors='ignore')\<close>.  The result is the caller's frame (lines
  134-138 change it in place) and the new frame of line 139.
\<close>

definition activeStats_clean ::
  "(string \<Rightarrow> 'n numeric) \<Rightarrow> 'n frame \<Rightarrow> error + ('n frame \<times> 'n frame)" where
  "activeStats_clean P df =
     and_then (drop_rows df [int (length (rws df)) - 1]) (\<lambda>df1.
     and_then (iloc_col df1 2) (\<lambda>c2.
     and_then (if dtype_object (map snd c2)
               then iloc_replace df1 (map fst (filter (\<lambda>(k, c). c = Str ''--'') c2))
               else Inr df1) (\<lambda>df2.
     Inr (df2, apply_cols (to_numeric_ignore P) df2))))"

text \<open>\<open>x.split(sep)\<close> on a cell: only a text has the method.\<close>

definition split_cell :: "string \<Rightarrow> 'n cell \<Rightarrow> error + 'n cell" where
  "split_cell sep c =
     (case c of Str s \<Rightarrow> Inr (Lst (split sep s)) | _ \<Rightarrow> Inl AttributeError)"

text \<open>\<^verbatim>\<open>Unnamed: \d+\<close>\<close>

definition unnamed_re :: regex where
  "unnamed_re = Seq (lit ''Unnamed: '') (Plus DigitC)"

text \<open>
  Line 146, \<open>lambda x: not re.search('Unnamed: \d+', x)\<close>: \<open>re.search\<close> raises
  \<open>TypeError\<close> on a name that is not a text.
\<close>

definition not_unnamed :: "label \<Rightarrow> error + bool" where
  "not_unnamed x =
     (case x of StrL s \<Rightarrow> Inr (re_search unnamed_re s = None) | IntL i \<Rightarrow> Inl TypeError)"

text \<open>\<open>League._formatActiveStatsTable\<close>, lines 129-147.\<close>

definition formatActiveStatsTable ::
  "(string \<Rightarrow> 'n numeric) \<Rightarrow> 'n frame \<Rightarrow> error + ('n frame \<times> 'n frame)" where
  "formatActiveStatsTable P df =
     and_then (activeStats_clean P df) (\<lambda>(df2, df3).
     and_then (getcol df3 (StrL ''PLAYER, TEAM POS'')) (\<lambda>c.
     and_then (join_cols df3 (map StrL stats_groups)
                 (map (\<lambda>(k, c). extract_cell stats_reStr 4 c) c)) (\<lambda>df4.
     and_then (drop_cols df4 [StrL ''PLAYER, TEAM POS'']) (\<lambda>df5.
     and_then (getcol df5 (StrL ''POS'')) (\<lambda>pos.
     and_then (collect (map (\<lambda>(k, c). split_cell '', '' c) pos)) (\<lambda>pos'.
     let df6 = setcol df5 (StrL ''POS'') pos' in
     and_then (select_cols df6 not_unnamed) (\<lambda>out.
     Inr (df2, out))))))))"

section \<open>Standings\<close>

text \<open>\<open>str(n)\<close> for an integer.\<close>

function str_nat :: "nat \<Rightarrow> string" where
  "str_nat n =
     (if n < 10 then [char_of (48 + n)] else str_nat (n div 10) @ [char_of (48 + n mod 10)])"
  by pat_completeness auto
termination
  by (relation "measure (\<lambda>n. n)") auto

definition str_int :: "int \<Rightarrow> string" where
  "str_int i = (if i < 0 then CHR ''-'' # str_nat (nat (- i)) else str_nat (nat i))"

text \<open>
  \<open>str(x)\<close> for a column name: a text with a code point above 127 is a \<open>unicode\<close> object
  that the ASCII codec cannot encode.
\<close>

definition py_str :: "label \<Rightarrow> error + string" where
  "py_str x =
     (case x of
        IntL i \<Rightarrow> Inr (str_int i)
      | StrL s \<Rightarrow> if list_all (\<lambda>c. (of_char c :: nat) < 128) s then Inr s
                  else Inl UnicodeEncodeError)"

text \<open>\<^verbatim>\<open>1\d\<close>\<close>

definition numbered_re :: regex where
  "numbered_re = Seq (Ch (LitC CHR ''1'')) (Ch DigitC)"

text \<open>Line 179, \<open>lambda x: not re.search('1\d', str(x))\<close>.\<close>

definition not_numbered :: "label \<Rightarrow> error + bool" where
  "not_numbered x = and_then (py_str x) (\<lambda>s. Inr (re_search numbered_re s = None))"

text \<open>
  \<open>League._formatStandingsTable\<close>, lines 172-180.  \<open>df.columns = columns\<close> raises
  \<open>ValueError\<close> when the lengths differ; \<open>isnull\<close> is true of the missing cells.
\<close>

definition formatStandingsTable ::
  "'n frame \<Rightarrow> label list \<Rightarrow> error + ('n frame \<times> 'n frame)" where
  "formatStandingsTable df cols =
     (if length cols \<noteq> length (columns df) then Inl ValueError
      else let df1 = df\<lparr>columns := cols\<rparr> in
        and_then (iloc_col df1 0) (\<lambda>c0.
        and_then (drop_rows df1 (map fst (filter (\<lambda>(k, c). c = NaN) c0))) (\<lambda>df2.
        and_then (select_cols df2 not_numbered) (\<lambda>out.
        Inr (df2, out)))))"

section \<open>Transactions\<close>

text \<open>\<open>xs[::4]\<close>; \<open>xs[2::4]\<close> is \<open>every4 (drop 2 xs)\<close>.\<close>

fun every4 :: "'a list \<Rightarrow> 'a list" where
  "every4 (a # b # c # d # xs) = a # every4 xs"
| "every4 (a # xs) = [a]"
| "every4 [] = []"

text \<open>\<open>ser.str.findall(pattern)\<close> on one cell, for a pattern with \<open>n\<close> groups.\<close>

definition findall_cell :: "regex \<Rightarrow> nat \<Rightarrow> 'n cell \<Rightarrow> 'n cell" where
  "findall_cell r n c = (case c of Str s \<Rightarrow> Tuples (findall r n s) | _ \<Rightarrow> NaN)"

text \<open>
  \<open>df[df['TYPE'].str.match(key)]['DETAIL'].str.findall(pattern)\<close>.  \<open>str.match\<close> is
  \<open>re.match\<close> with the key as the pattern (the keys hold no special character); it gives
  \<open>NaN\<close> for a cell that is not a text, and a mask with a \<open>NaN\<close> raises \<open>ValueError\<close>.
\<close>

definition findall_by_type ::
  "'n frame \<Rightarrow> string \<Rightarrow> regex \<Rightarrow> nat \<Rightarrow> error + 'n series" where
  "findall_by_type df key r n =
     and_then (getcol df (StrL ''TYPE'')) (\<lambda>ty.
     and_then (collect (map (\<lambda>(k, c). case c of Str s \<Rightarrow> Inr (re_match (lit key) s)
                                          | _ \<Rightarrow> Inl ValueError) ty)) (\<lambda>mask.
     and_then (getcol df (StrL ''DETAIL'')) (\<lambda>det.
     Inr (map (\<lambda>((k, c), m). (k, findall_cell r n c)) (filter snd (zip det mask))))))"

text \<open>\<open>ser.apply(f)\<close> for an \<open>f\<close> that may raise.\<close>

definition apply_series :: "('n cell \<Rightarrow> error + 'n cell) \<Rightarrow> 'n series \<Rightarrow> error + 'n series" where
  "apply_series f ser = collect (map (\<lambda>(k, c). and_then (f c) (\<lambda>v. Inr (k, v))) ser)"

text \<open>
  Line 313, \<open>lambda x: [x[0][:3], x[1][:3:-1]]\<close>: \<open>x\<close> is the list of matches, each a tuple
  of the six groups.  \<open>t[:3:-1]\<close> runs from the last element down to index 4.
\<close>

definition addDrop_pair :: "'n cell \<Rightarrow> error + 'n cell" where
  "addDrop_pair x =
     (case x of
        Tuples ms \<Rightarrow>
          (case ms of
             a # b # _ \<Rightarrow> Inr (Tuples [take 3 a, rev (drop 4 b)])
           | _ \<Rightarrow> Inl IndexError)
      | _ \<Rightarrow> Inl TypeError)"

text \<open>Line 318, \<open>lambda x: [x[0][::-1]]\<close>.\<close>

definition add_single :: "'n cell \<Rightarrow> error + 'n cell" where
  "add_single x =
     (case x of
        Tuples ms \<Rightarrow> (case ms of a # _ \<Rightarrow> Inr (Tuples [rev a]) | [] \<Rightarrow> Inl IndexError)
      | _ \<Rightarrow> Inl TypeError)"

text \<open>
  \<open>df.join(ser)\<close> for a series named \<open>l\<close>: a left join on the index, one row for every
  entry of the series with the row's label, and a missing cell when there is none.
\<close>

definition join_series :: "'n frame \<Rightarrow> label \<Rightarrow> 'n series \<Rightarrow> error + 'n frame" where
  "join_series df l ser =
     (if l \<in> set (columns df) then Inl ValueError
      else Inr \<lparr>columns = columns df @ [l],
                rws = concat (map (\<lambda>(k, r).
                        case filter (\<lambda>(k', v). k' = k) ser of
                          [] \<Rightarrow> [(k, pad (length (columns df)) r @ [NaN])]
                        | ms \<Rightarrow> map (\<lambda>(k', v). (k, pad (length (columns df)) r @ [v])) ms)
                      (rws df))\<rparr>)"

text \<open>
  \<open>Team._formatTransactionTable\<close>, lines 296-330.  \<open>df\<close> is the frame that
  \<open>pd.read_html(htmlStr, header=1)[0]\<close> gives, and each element of \<open>tds\<close> is given by its
  \<open>itertext()\<close>.
\<close>

definition formatTransactionTable :: "'n frame \<Rightarrow> string list list \<Rightarrow> error + 'n frame" where
  "formatTransactionTable df tds =
     (let dates = map (join '' '') (every4 tds) in
      and_then (setcol_list df (StrL ''DATE'') (map Str dates)) (\<lambda>df1.
      let details = map (\<lambda>i. replace '' ,'' '','' (replace ''  '' '' '' (join '' '' i)))
                      (every4 (drop 2 tds)) in
      and_then (setcol_list df1 (StrL ''DETAIL'') (map Str details)) (\<lambda>df2.
      and_then (findall_by_type df2 addDropKey addDropStr 6) (\<lambda>addDrop0.
      and_then (apply_series addDrop_pair addDrop0) (\<lambda>addDrop.
      and_then (findall_by_type df2 addKey addStr 3) (\<lambda>add0.
      and_then (apply_series add_single add0) (\<lambda>adds.
      and_then (findall_by_type df2 dropKey dropStr 3) (\<lambda>drops.
      and_then (findall_by_type df2 tradeKey tradeStr 3) (\<lambda>trades.
      join_series df2 (StrL ''TRANSACTION'') (addDrop @ adds @ drops @ trades))))))))))"

section \<open>A number parser for the examples\<close>

text \<open>
  The theorems below hold for every parser \<open>P\<close>.  The examples run the formatters with
  this one, which reads the empty text as missing and a run of decimal digits as that
  integer.
\<close>

definition digits_parser :: "string \<Rightarrow> int numeric" where
  "digits_parser s =
     (if s = [] then Missing
      else if list_all is_digit s then Number (int (digits_val s))
      else NotNumeric)"

section \<open>The entries of a header, by the cell they come from\<close>

text \<open>
  What \<open>_parseHeaders\<close> appends to a row, named by its origin instead of by the value of
  the counter: \<open>Name s\<close> is the joined text of a cell without \<open>colspan\<close>, \<open>Cell i\<close> is the
  synthetic name of the \<open>i\<close>-th cell of the header (the cells of the first row are counted
  before those of the second).  A padding cell gives one \<open>Cell i\<close>, a cell with a text and
  a \<open>colspan\<close> that reads as \<open>k\<close> gives \<open>k\<close> of them.
\<close>

datatype entry = Cell nat | Name string

definition cell_entries :: "nat \<Rightarrow> td \<Rightarrow> entry list" where
  "cell_entries i c =
     (if texts c = [] then [Cell i]
      else case colspan c of
             Some s \<Rightarrow> (case py_int s of None \<Rightarrow> [] | Some k \<Rightarrow> replicate (nat k) (Cell i))
           | None \<Rightarrow> [Name (join '' '' (texts c))])"

fun row_entries :: "nat \<Rightarrow> td list \<Rightarrow> entry list" where
  "row_entries i [] = []"
| "row_entries i (c # cs) = cell_entries i c @ row_entries (Suc i) cs"

text \<open>The splice of lines 216-217, on lists of any kind.\<close>

definition splice :: "'a list \<Rightarrow> 'a list \<Rightarrow> 'a list" where
  "splice row1 row2 =
     (let n = int (length row1) - 2 - int (length row2)
      in take 2 row1 @ row2 @ slice_from (- n) row1)"

text \<open>
  The entries of the resolved list: with two rows the splice of the entries of both,
  otherwise the text nodes of the first row.
\<close>

definition header_entries :: "table_markup \<Rightarrow> entry list" where
  "header_entries t =
     (case subHeads t of
        [] \<Rightarrow> []
      | [r1, r2] \<Rightarrow> splice (row_entries 0 r1) (row_entries (length r1) r2)
      | r # _ \<Rightarrow> map Name (concat (map texts r)))"

text \<open>
  The cells that move \<open>noname\<close> on (a padding cell, or a cell with a \<open>colspan\<close>), and the
  column name of an entry: a text is its own name, and the synthetic name of the \<open>i\<close>-th
  cell is 10 plus the number of such cells before it.
\<close>

definition placeholder :: "td \<Rightarrow> bool" where
  "placeholder c = (texts c = [] \<or> colspan c \<noteq> None)"

definition entry_name :: "td list \<Rightarrow> entry \<Rightarrow> label" where
  "entry_name cells e =
     (case e of
        Cell i \<Rightarrow> IntL (10 + int (length (filter placeholder (take i cells))))
      | Name s \<Rightarrow> StrL s)"

section \<open>Predicates and rows used in the statements\<close>

text \<open>Every cell of the frame that stands in a column named \<open>l\<close> is \<open>v\<close>.\<close>

definition const_col :: "'n frame \<Rightarrow> label \<Rightarrow> 'n cell \<Rightarrow> bool" where
  "const_col df l v =
     (\<forall>(k, r) \<in> set (rws df). \<forall>i < length (columns df).
        columns df ! i = l \<longrightarrow> cell_at r i = v)"

text \<open>
  What lines 135-138 do to one row of a frame with \<open>n\<close> columns: a row whose third cell
  is \<open>"--"\<close> has every \<open>"--"\<close> cell replaced, any other row is left as it is.
\<close>

definition dash_row :: "nat \<Rightarrow> 'n cell list \<Rightarrow> 'n cell list" where
  "dash_row n r = (if cell_at r 2 = Str ''--'' then replace_dashes (pad n r) else r)"

section \<open>Example inputs\<close>

text \<open>A header cell with one text node and no \<open>colspan\<close>, and an empty padding cell.\<close>

definition text_td :: "string \<Rightarrow> td" where
  "text_td s = \<lparr>texts = [s], colspan = None\<rparr>"

definition padding_td :: td where
  "padding_td = \<lparr>texts = [], colspan = None\<rparr>"

text \<open>A group title: a cell with a text and a \<open>colspan\<close> attribute.\<close>

definition title_td :: "string \<Rightarrow> string \<Rightarrow> td" where
  "title_td s n = \<lparr>texts = [s], colspan = Some n\<rparr>"

text \<open>
  A two-row header whose first row holds the title \<open>BATTERS\<close> with \<open>colspan="3"\<close> over
  three names in the second row, and a one-row header.
\<close>

definition titled_header :: table_markup where
  "titled_header =
     \<lparr>heads = [Some ''T''],
      subHeads = [[text_td ''A'', text_td ''B'', title_td ''BATTERS'' ''3'', text_td ''Z''],
                  map text_td [''H1'', ''H2'', ''H3'']]\<rparr>"

definition one_row_header :: table_markup where
  "one_row_header =
     \<lparr>heads = [Some ''T''], subHeads = [map text_td [''RANK'', ''TEAM'', ''R'']]\<rparr>"

text \<open>
  The composite texts \<open>Smith, NYY<nbsp>OF\<close> and \<open>Smith, NYY<nbsp>OF<nbsp><nbsp>K\<close>, where
  \<open><nbsp>\<close> stands for the non-breaking space.
\<close>

definition smith_plain :: string where
  "smith_plain = ''Smith, NYY'' @ [nbsp] @ ''OF''"

definition smith_keeper :: string where
  "smith_keeper = ''Smith, NYY'' @ [nbsp] @ ''OF'' @ [nbsp, nbsp] @ ''K''"

text \<open>
  An auction block as \<open>read_html\<close> gives it: the carrier row, two picks that match the
  pattern (the second a keeper) and one whose player cell does not.
\<close>

definition auction_block :: "int frame" where
  "auction_block =
     read_html [IntL 0, IntL 1, IntL 2]
       [[Str [], Str ''MANAGER_X'', NaN],
        [Str ''1'', Str smith_plain, Str ''$5''],
        [Str ''2'', Str (''Jones, BOS'' @ [nbsp] @ ''SP'' @ [nbsp, nbsp] @ ''K''), Str ''$12''],
        [Str ''3'', Str ''Free agent'', Str ''$1'']]"

text \<open>A snake block: the carrier row with the round label and one pick.\<close>

definition snake_block :: "int frame" where
  "snake_block =
     read_html [IntL 0, IntL 1, IntL 2]
       [[Str ''ROUND 1'', NaN, NaN],
        [Str ''1'', Str smith_plain, Str ''Team A'']]"

text \<open>
  An active-stats page as \<open>read_html(header=1)\<close> gives it: two players and the totals
  row.  The second player's cell has no comma, so the pattern does not match it.
\<close>

definition stats_page :: "int frame" where
  "stats_page =
     read_html [StrL ''PLAYER, TEAM POS'', StrL ''Unnamed: 1'', StrL ''AB'', StrL ''H'']
       [[Str (''Smith, NYY'' @ [nbsp] @ ''1B, OF''), NaN, Str ''10'', Str ''3''],
        [Str ''Jones BOS'', NaN, Str ''--'', Str ''--''],
        [Str ''TOTALS'', NaN, Str ''10'', Str ''3'']]"

text \<open>The columns and the rows of the page \<open>stats_page_dashes\<close> below.\<close>

definition dashes_columns :: "label list" where
  "dashes_columns = [StrL ''PLAYER, TEAM POS'', StrL ''Unnamed: 1'', StrL ''AB'', StrL ''H'']"

definition dashes_body :: "int cell list list" where
  "dashes_body =
     [[Str (''Smith, NYY'' @ [nbsp] @ ''1B, OF''), NaN, Str ''10'', Str ''3''],
      [Str (''Jones, BOS'' @ [nbsp] @ ''SP''), NaN, Str ''--'', Str ''--''],
      [Str (''Doe, BOS'' @ [nbsp] @ ''C''), NaN, Str ''4'', Str ''--''],
      [Str ''TOTALS'', NaN, Str ''14'', Str ''3'']]"

text \<open>
  An active-stats page on which one player has an at-bat count and \<open>"--"\<close> for hits.
\<close>

definition stats_page_dashes :: "int frame" where
  "stats_page_dashes = read_html dashes_columns dashes_body"

text \<open>
  A transactions page with one row of type \<open>Transaction<nbsp><nbsp>Add/Drop\<close>, and the text
  nodes of its four cells.
\<close>

definition drop_detail :: string where
  "drop_detail = ''PlayerA dropped PlayerB, was sent to Waivers''"

definition transaction_page :: "int frame" where
  "transaction_page =
     read_html [StrL ''DATE'', StrL ''TYPE'', StrL ''DETAIL'', StrL ''ACTION'']
       [[Str ''Mon, Apr 4'', Str addDropKey, Str drop_detail, NaN]]"

definition transaction_tds :: "string list list" where
  "transaction_tds =
     [[''Mon, Apr 4''], [''Transaction'', [nbsp, nbsp] @ ''Add/Drop''], [drop_detail], []]"

text \<open>A standings table with a spacer row, and its resolved column names.\<close>

definition standings_page :: "int frame" where
  "standings_page =
     read_html [IntL 0, IntL 1, IntL 2, IntL 3]
       [[Str ''1'', Str ''Team A'', NaN, Str ''10''],
        [NaN, NaN, NaN, NaN],
        [Str ''2'', Str ''Team B'', NaN, Str ''7'']]"

definition standings_columns :: "label list" where
  "standings_columns = [StrL ''RANK'', StrL ''TEAM'', IntL 10, StrL ''R'']"

text \<open>Column names in which the synthetic name 11 stands twice.\<close>

definition repeated_columns :: "label list" where
  "repeated_columns = [StrL ''RANK'', IntL 11, IntL 11, StrL ''R'']"

text \<open>
  The auction block after \<open>_formatAuctionTable\<close> has run on it, and the table the call
  returns.
\<close>

definition auction_block_left :: "int frame" where
  "auction_block_left =
     \<lparr>columns = [IntL 0, IntL 1, IntL 2, StrL ''MANAGER'', StrL ''PICK'', StrL ''PRICE''],
      rws = [(1, [Str ''1'', Str smith_plain, Str ''$5'', Str [], Num 1, Num 5]),
             (2, [Str ''2'', Str (''Jones, BOS'' @ [nbsp] @ ''SP'' @ [nbsp, nbsp] @ ''K''),
                  Str ''$12'', Str [], Num 2, Num 12]),
             (3, [Str ''3'', Str ''Free agent'', Str ''$1'', Str [], Num 3, Num 1])]\<rparr>"

definition auction_block_out :: "int frame" where
  "auction_block_out =
     \<lparr>columns = auction_columns,
      rws = [(1, [Str [], Str ''Smith'', Num 1, Str ''NYY'', Str ''OF'', Num 5, Bool False]),
             (2, [Str [], Str ''Jones'', Num 2, Str ''BOS'', Str ''SP'', Num 12, Bool True]),
             (3, [Str [], NaN, Num 3, NaN, NaN, Num 1, NaN])]\<rparr>"

text \<open>
  The standings table after \<open>_formatStandingsTable\<close> has run on it, and the table the call
  returns.
\<close>

definition standings_page_left :: "int frame" where
  "standings_page_left =
     \<lparr>columns = standings_columns,
      rws = [(0, [Str ''1'', Str ''Team A'', NaN, Str ''10'']),
             (2, [Str ''2'', Str ''Team B'', NaN, Str ''7''])]\<rparr>"

definition standings_page_out :: "int frame" where
  "standings_page_out =
     \<lparr>columns = [StrL ''RANK'', StrL ''TEAM'', StrL ''R''],
      rws = [(0, [Str ''1'', Str ''Team A'', Str ''10'']),
             (2, [Str ''2'', Str ''Team B'', Str ''7''])]\<rparr>"

text \<open>
  The page \<open>stats_page_dashes\<close> after lines 134-138 have run on it, and the frame that
  line 139 makes of it.
\<close>

definition stats_page_dashes_left :: "int frame" where
  "stats_page_dashes_left =
     \<lparr>columns = dashes_columns,
      rws = [(0, [Str (''Smith, NYY'' @ [nbsp] @ ''1B, OF''), NaN, Str ''10'', Str ''3'']),
             (1, [Str (''Jones, BOS'' @ [nbsp] @ ''SP''), NaN, NaN, NaN]),
             (2, [Str (''Doe, BOS'' @ [nbsp] @ ''C''), NaN, Str ''4'', Str ''--''])]\<rparr>"

definition stats_page_dashes_coerced :: "int frame" where
  "stats_page_dashes_coerced =
     \<lparr>columns = dashes_columns,
      rws = [(0, [Str (''Smith, NYY'' @ [nbsp] @ ''1B, OF''), NaN, Num 10, Str ''3'']),
             (1, [Str (''Jones, BOS'' @ [nbsp] @ ''SP''), NaN, NaN, NaN]),
             (2, [Str (''Doe, BOS'' @ [nbsp] @ ''C''), NaN, Num 4, Str ''--''])]\<rparr>"

section \<open>Header resolution: the merged column list\<close>

lemma and_then_Inr: "and_then m f = Inr y \<longleftrightarrow> (\<exists>x. m = Inr x \<and> f x = Inr y)"
  by (cases m) auto

lemma length_merge_subheads:
  assumes "length row2 + 2 < length row1"
  shows "length (merge_subheads row1 row2) = length row1"
  using assms by (simp add: merge_subheads_def slice_from_def Let_def)

text \<open>
  C1, as the code has it.  When the two sub-header rows resolve to \<open>subHead1\<close> and
  \<open>subHeadRow\<close> and the second is shorter than the first by more than two entries (so
  \<open>n = len(subHead1) - 2 - len(subHeadRow)\<close> is at least 1), \<open>_parseHeaders\<close> returns a
  column list of exactly \<open>len(subHead1)\<close> names.
\<close>

theorem parseHeaders_two_rows_length:
  assumes "scan_tds ([], 10) r1 = Inr (subHead1, c1)"
    and "scan_tds ([], c1) r2 = Inr (subHeadRow, c2)"
    and "length subHeadRow + 2 < length subHead1"
  shows "\<exists>cols. parseHeaders \<lparr>heads = h # hs, subHeads = [r1, r2]\<rparr> = Inr (h, cols)
           \<and> length cols = length subHead1"
  using assms by (simp add: parseHeaders_def length_merge_subheads)

text \<open>An instance: four names in the first row, one in the second.\<close>

theorem parseHeaders_two_rows_length_witness:
  "scan_tds ([], 10) (map text_td [''A'', ''B'', ''C'', ''D''])
     = Inr (map StrL [''A'', ''B'', ''C'', ''D''], 10)
   \<and> scan_tds ([], 10) [text_td ''H''] = Inr ([StrL ''H''], 10)
   \<and> length [StrL ''H''] + 2 < length (map StrL [''A'', ''B'', ''C'', ''D''])
   \<and> (\<exists>cols. parseHeaders \<lparr>heads = [Some ''T''],
                  subHeads = [map text_td [''A'', ''B'', ''C'', ''D''], [text_td ''H'']]\<rparr>
                = Inr (Some ''T'', cols)
              \<and> length cols = length (map StrL [''A'', ''B'', ''C'', ''D'']))"
proof -
  have a: "scan_tds ([], 10) (map text_td [''A'', ''B'', ''C'', ''D''])
             = Inr (map StrL [''A'', ''B'', ''C'', ''D''], 10)"
    by (simp add: text_td_def)
  have b: "scan_tds ([], 10) [text_td ''H''] = Inr ([StrL ''H''], 10)"
    by (simp add: text_td_def)
  have c: "length [StrL ''H''] + 2 < length (map StrL [''A'', ''B'', ''C'', ''D''])"
    by simp
  from parseHeaders_two_rows_length [OF a b c, of "Some ''T''" "[]"] a b c
  show ?thesis by blast
qed

text \<open>
  C1 as stated fails when the second row is not that much shorter.  With three names in
  the first row and two in the second, \<open>n = -1\<close>, the slice \<open>subHead1[1:]\<close> keeps two
  names and the merged list has six names, not three.
\<close>

theorem parseHeaders_length_counterexample:
  "scan_tds ([], 10) (map text_td [''A'', ''B'', ''C'']) = Inr (map StrL [''A'', ''B'', ''C''], 10)
   \<and> scan_tds ([], 10) (map text_td [''H1'', ''H2'']) = Inr (map StrL [''H1'', ''H2''], 10)
   \<and> parseHeaders \<lparr>heads = [Some ''T''],
        subHeads = [map text_td [''A'', ''B'', ''C''], map text_td [''H1'', ''H2'']]\<rparr>
       = Inr (Some ''T'', map StrL [''A'', ''B'', ''H1'', ''H2'', ''B'', ''C''])"
  by (simp add: parseHeaders_def text_td_def merge_subheads_def slice_from_def)

text \<open>
  When the second row is shorter by exactly two, \<open>n = 0\<close> and the slice \<open>subHead1[-0:]\<close>
  is the whole first row: the merged list repeats it.
\<close>

lemma parseHeaders_zero_tail:
  "parseHeaders \<lparr>heads = [Some ''T''],
      subHeads = [map text_td [''A'', ''B'', ''C''], [text_td ''H1'']]\<rparr>
     = Inr (Some ''T'', map StrL [''A'', ''B'', ''H1'', ''A'', ''B'', ''C''])"
  by (simp add: parseHeaders_def text_td_def merge_subheads_def slice_from_def)

text \<open>
  The splice of lines 216-217 has the length of the first row in these cases and in no
  other: the second row is shorter by more than two, or the first row has at most one
  name and the second none.
\<close>

lemma length_merge_subheads_iff:
  "length (merge_subheads row1 row2) = length row1
     \<longleftrightarrow> length row2 + 2 < length row1 \<or> (length row1 \<le> 1 \<and> row2 = [])"
  by (auto simp: merge_subheads_def slice_from_def Let_def min_def split: if_splits)

section \<open>Header resolution: duplicate names\<close>

lemma scan_td_entries:
  assumes "scan_td (row, c) x = Inr (row', c')"
  shows "row' = row @ map (\<lambda>e. case e of Cell j \<Rightarrow> IntL c | Name s \<Rightarrow> StrL s) (cell_entries i x)"
    and "c' = c + (if placeholder x then 1 else 0)"
  using assms
  by (auto simp: cell_entries_def placeholder_def split: if_splits option.splits)

lemma entry_name_cell_entries:
  "map (entry_name (pre @ x # xs)) (cell_entries (length pre) x)
     = map (\<lambda>e. case e of Cell j \<Rightarrow> IntL (10 + int (length (filter placeholder pre)))
                          | Name s \<Rightarrow> StrL s) (cell_entries (length pre) x)"
  by (auto simp: cell_entries_def entry_name_def split: option.splits)

lemma scan_tds_entries:
  assumes "scan_tds (row, 10 + int (length (filter placeholder pre))) suf = Inr (row', c')"
  shows "row' = row @ map (entry_name (pre @ suf)) (row_entries (length pre) suf)
         \<and> c' = 10 + int (length (filter placeholder (pre @ suf)))"
  using assms
proof (induction suf arbitrary: pre row)
  case Nil
  then show ?case by simp
next
  case (Cons x xs)
  let ?c = "10 + int (length (filter placeholder pre))"
  from Cons.prems obtain row1 c1 where
    s1: "scan_td (row, ?c) x = Inr (row1, c1)" and s2: "scan_tds (row1, c1) xs = Inr (row', c')"
    by (auto split: sum.splits)
  from scan_td_entries(1) [OF s1, of "length pre"] have
    r1: "row1 = row @ map (entry_name (pre @ x # xs)) (cell_entries (length pre) x)"
    by (simp add: entry_name_cell_entries)
  from scan_td_entries(2) [OF s1] have
    c1: "c1 = 10 + int (length (filter placeholder (pre @ [x])))"
    by simp
  from s2 have "scan_tds (row1, 10 + int (length (filter placeholder (pre @ [x])))) xs = Inr (row', c')"
    by (simp only: c1)
  from Cons.IH [OF this] r1 show ?case by simp
qed

lemma row_entries_cells:
  assumes "Cell i \<in> set (row_entries j tds)"
  shows "j \<le> i \<and> i < j + length tds \<and> placeholder (tds ! (i - j))"
  using assms
proof (induction tds arbitrary: j)
  case Nil
  then show ?case by simp
next
  case (Cons x xs)
  from Cons.prems consider "Cell i \<in> set (cell_entries j x)" | "Cell i \<in> set (row_entries (Suc j) xs)"
    by auto
  then show ?case
  proof cases
    case 1
    then have "i = j" "placeholder x"
      by (auto simp: cell_entries_def placeholder_def split: if_splits option.splits)
    then show ?thesis by simp
  next
    case 2
    from Cons.IH [OF 2] show ?thesis by (auto simp: Suc_diff_le)
  qed
qed

lemma count_take_strict:
  assumes "i < i'" "i < length cells" "P (cells ! i)"
  shows "length (filter P (take i cells)) < length (filter P (take i' cells))"
proof -
  from assms(1) obtain d where d: "i' = Suc i + d" by (metis add_Suc less_iff_Suc_add)
  have "take (Suc i + d) cells = take (Suc i) cells @ take d (drop (Suc i) cells)"
    by (rule take_add)
  with assms(2) have "take i' cells = take i cells @ [cells ! i] @ take d (drop (Suc i) cells)"
    unfolding d by (simp only: take_Suc_conv_app_nth append_assoc)
  with assms(3) show ?thesis by simp
qed

lemma entry_name_inj:
  assumes "\<And>i. Cell i \<in> S \<Longrightarrow> i < length cells \<and> placeholder (cells ! i)"
  shows "inj_on (entry_name cells) S"
proof (rule inj_onI)
  fix a b assume a: "a \<in> S" and b: "b \<in> S" and e: "entry_name cells a = entry_name cells b"
  show "a = b"
  proof (cases a)
    case (Cell i)
    with e obtain i' where b': "b = Cell i'" by (cases b) (auto simp: entry_name_def)
    show ?thesis
    proof (rule ccontr)
      assume "a \<noteq> b"
      with Cell b' have "i < i' \<or> i' < i" by auto
      moreover from assms a Cell have "i < length cells" "placeholder (cells ! i)" by auto
      moreover from assms b b' have "i' < length cells" "placeholder (cells ! i')" by auto
      ultimately have "length (filter placeholder (take i cells))
                       \<noteq> length (filter placeholder (take i' cells))"
        using count_take_strict [of i i' cells placeholder]
          count_take_strict [of i' i cells placeholder] by fastforce
      with e Cell b' show False by (simp add: entry_name_def)
    qed
  next
    case (Name s)
    with e show ?thesis by (cases b) (auto simp: entry_name_def)
  qed
qed

lemma merge_subheads_map:
  "merge_subheads (map f a) (map f b) = map f (splice a b)"
  by (simp add: merge_subheads_def splice_def slice_from_def Let_def take_map drop_map)

lemma set_splice: "set (splice a b) \<subseteq> set a \<union> set b"
  by (auto simp: splice_def slice_from_def Let_def dest: in_set_takeD in_set_dropD)

lemma entry_name_prefix:
  assumes "\<And>i. Cell i \<in> set es \<Longrightarrow> i \<le> length r1"
  shows "map (entry_name (r1 @ r2)) es = map (entry_name r1) es"
proof (rule map_cong [OF refl])
  fix e assume "e \<in> set es"
  with assms show "entry_name (r1 @ r2) e = entry_name r1 e"
    by (cases e) (auto simp: entry_name_def)
qed

text \<open>
  C10, as the code has it.  The resolved names are the names of the entries of the
  header: a text is its own name, and every padding cell and every cell with a \<open>colspan\<close>
  has one synthetic name, 10 plus the number of such cells before it, whatever the
  \<open>colspan\<close> says; a \<open>colspan\<close> that reads as \<open>k\<close> puts that one name \<open>k\<close> times into the
  row.  Different entries have different names, so the resolved list repeats a name
  exactly where the header repeats an entry: where two cells that are kept carry the same
  text, where more than one copy of a cell's synthetic name is kept, or where the splice
  takes an entry of the first row twice.
\<close>

theorem header_names:
  assumes "parseHeaders t = Inr (h, cols)"
  shows "cols = map (entry_name (concat (subHeads t))) (header_entries t)
       \<and> inj_on (entry_name (concat (subHeads t))) (set (header_entries t))
       \<and> (distinct cols \<longleftrightarrow> distinct (header_entries t))"
proof -
  let ?f = "entry_name (concat (subHeads t))"
  have main: "cols = map ?f (header_entries t) \<and> inj_on ?f (set (header_entries t))"
  proof -
    from assms consider (one) r where "subHeads t = [r]"
      | (two) r1 r2 where "subHeads t = [r1, r2]"
      by (cases "subHeads t" rule: list.exhaust; cases "tl (subHeads t)"; cases "tl (tl (subHeads t))")
         (auto simp: parseHeaders_def split: list.splits if_splits)
    then show ?thesis
    proof cases
      case one
      with assms have "cols = concat (map (\<lambda>x. map StrL (texts x)) r)"
        by (auto simp: parseHeaders_def split: list.splits)
      also have "\<dots> = map StrL (concat (map texts r))"
        by (simp add: map_concat comp_def)
      finally have "cols = map ?f (header_entries t)"
        by (simp add: header_entries_def one entry_name_def comp_def)
      moreover have "inj_on ?f (set (header_entries t))"
        by (rule entry_name_inj) (auto simp: header_entries_def one)
      ultimately show ?thesis by simp
    next
      case two
      with assms obtain row1 c1 row2 c2 where
        s1: "scan_tds ([], 10) r1 = Inr (row1, c1)"
        and s2: "scan_tds ([], c1) r2 = Inr (row2, c2)"
        and cols: "cols = merge_subheads row1 row2"
        by (auto simp: parseHeaders_def split: list.splits sum.splits if_splits)
      let ?g = "entry_name (r1 @ r2)"
      from scan_tds_entries [of "[]" "[]" r1 row1 c1] s1 have
        r1: "row1 = map (entry_name r1) (row_entries 0 r1)"
        and c1: "c1 = 10 + int (length (filter placeholder r1))"
        by simp_all
      have "map ?g (row_entries 0 r1) = map (entry_name r1) (row_entries 0 r1)"
        by (rule entry_name_prefix) (auto dest: row_entries_cells)
      with r1 have r1': "row1 = map ?g (row_entries 0 r1)" by simp
      from s2 c1 have "scan_tds ([], 10 + int (length (filter placeholder r1))) r2 = Inr (row2, c2)"
        by simp
      from scan_tds_entries [OF this] have r2': "row2 = map ?g (row_entries (length r1) r2)"
        by simp
      have c: "cols = map ?g (header_entries t)"
        by (simp add: cols r1' r2' merge_subheads_map header_entries_def two)
      have "inj_on ?g (set (row_entries 0 r1) \<union> set (row_entries (length r1) r2))"
      proof (rule entry_name_inj)
        fix i assume "Cell i \<in> set (row_entries 0 r1) \<union> set (row_entries (length r1) r2)"
        then show "i < length (r1 @ r2) \<and> placeholder ((r1 @ r2) ! i)"
          by (auto dest!: row_entries_cells simp: nth_append)
      qed
      moreover have "set (header_entries t)
                     \<subseteq> set (row_entries 0 r1) \<union> set (row_entries (length r1) r2)"
        using set_splice [of "row_entries 0 r1" "row_entries (length r1) r2"]
        by (simp add: header_entries_def two)
      ultimately have "inj_on ?g (set (header_entries t))"
        by (rule inj_on_subset)
      with c two show ?thesis by simp
    qed
  qed
  then have "distinct cols \<longleftrightarrow> distinct (header_entries t)"
    by (metis distinct_map)
  with main show ?thesis by simp
qed

text \<open>
  Two instances.  In \<open>titled_header\<close> the three copies of the name of \<open>BATTERS\<close> are
  spliced out and the resolved list is free of duplicates; \<open>one_row_header\<close> has one row
  of different texts.
\<close>

theorem header_names_witness:
  "parseHeaders titled_header
     = Inr (Some ''T'', map StrL [''A'', ''B'', ''H1'', ''H2'', ''H3'', ''Z''])
   \<and> header_entries titled_header = map Name [''A'', ''B'', ''H1'', ''H2'', ''H3'', ''Z'']
   \<and> row_entries 0 (hd (subHeads titled_header))
       = [Name ''A'', Name ''B'', Cell 2, Cell 2, Cell 2, Name ''Z'']
   \<and> inj_on (entry_name (concat (subHeads titled_header))) (set (header_entries titled_header))
   \<and> distinct (map StrL [''A'', ''B'', ''H1'', ''H2'', ''H3'', ''Z''])
   \<and> distinct (header_entries titled_header)
   \<and> parseHeaders one_row_header = Inr (Some ''T'', map StrL [''RANK'', ''TEAM'', ''R''])
   \<and> header_entries one_row_header = map Name [''RANK'', ''TEAM'', ''R'']
   \<and> distinct (map StrL [''RANK'', ''TEAM'', ''R''])"
proof -
  have p3: "py_int ''3'' = Some 3"
    by (simp add: py_int_def is_unicode_def is_space_def is_digit_def digits_val_def)
  have a: "parseHeaders titled_header
             = Inr (Some ''T'', map StrL [''A'', ''B'', ''H1'', ''H2'', ''H3'', ''Z''])"
    by (simp add: titled_header_def parseHeaders_def text_td_def title_td_def p3
        merge_subheads_def slice_from_def eval_nat_numeral)
  have b: "header_entries titled_header = map Name [''A'', ''B'', ''H1'', ''H2'', ''H3'', ''Z'']"
    by (simp add: titled_header_def header_entries_def cell_entries_def text_td_def
        title_td_def p3 splice_def slice_from_def eval_nat_numeral)
  have c: "row_entries 0 (hd (subHeads titled_header))
             = [Name ''A'', Name ''B'', Cell 2, Cell 2, Cell 2, Name ''Z'']"
    by (simp add: titled_header_def cell_entries_def text_td_def title_td_def p3
        eval_nat_numeral)
  have d: "parseHeaders one_row_header = Inr (Some ''T'', map StrL [''RANK'', ''TEAM'', ''R''])"
    by (simp add: one_row_header_def parseHeaders_def text_td_def)
  have e: "header_entries one_row_header = map Name [''RANK'', ''TEAM'', ''R'']"
    by (simp add: one_row_header_def header_entries_def text_td_def)
  have f: "distinct (map StrL [''A'', ''B'', ''H1'', ''H2'', ''H3'', ''Z''])"
    "distinct (map StrL [''RANK'', ''TEAM'', ''R''])"
    by simp_all
  from header_names [OF a] f(1) have
    "inj_on (entry_name (concat (subHeads titled_header))) (set (header_entries titled_header))"
    "distinct (header_entries titled_header)"
    by simp_all
  with a b c d e f show ?thesis by simp
qed

text \<open>
  C10 as stated fails.  The title \<open>BATTERS\<close> with \<open>colspan="3"\<close> gives the name 11 three
  times and uses one counter value: the next padding cell is named 12, and the name 11
  stands twice in the resolved list.
\<close>

theorem header_names_counterexample:
  "scan_tds ([], 10)
      [padding_td, text_td ''A'', title_td ''BATTERS'' ''3'', padding_td, text_td ''Z'']
     = Inr ([IntL 10, StrL ''A'', IntL 11, IntL 11, IntL 11, IntL 12, StrL ''Z''], 13)
   \<and> parseHeaders \<lparr>heads = [Some ''T''],
        subHeads = [[padding_td, text_td ''A'', title_td ''BATTERS'' ''3'', padding_td,
                     text_td ''Z''], [text_td ''H'']]\<rparr>
       = Inr (Some ''T'', [IntL 10, StrL ''A'', StrL ''H'', IntL 11, IntL 11, IntL 12, StrL ''Z''])
   \<and> \<not> distinct [IntL 10, StrL ''A'', StrL ''H'', IntL 11, IntL 11, IntL 12, StrL ''Z'']"
  by (simp add: parseHeaders_def text_td_def padding_td_def title_td_def merge_subheads_def
      slice_from_def py_int_def is_unicode_def is_space_def is_digit_def digits_val_def
      eval_nat_numeral)

section \<open>Draft formatting: the draft type\<close>

text \<open>
  C2, as the code has it.  For every draft type other than the four that \<open>_formatDraft\<close>
  names, the function raises nothing: it returns \<open>None\<close> and leaves the block as it was.
\<close>

theorem formatDraft_other_type:
  assumes "draftType \<notin> {''Auction Draft'', ''Snake Draft'', ''Offline Draft'', ''Autopick Draft''}"
  shows "formatDraft P df draftType = Inr (df, None)"
  using assms by (simp add: formatDraft_def)

theorem formatDraft_other_type_witness:
  "''Keeper Draft'' \<notin> {''Auction Draft'', ''Snake Draft'', ''Offline Draft'', ''Autopick Draft''}
   \<and> formatDraft digits_parser auction_block ''Keeper Draft'' = Inr (auction_block, None)"
proof -
  have a: "''Keeper Draft''
             \<notin> {''Auction Draft'', ''Snake Draft'', ''Offline Draft'', ''Autopick Draft''}"
    by simp
  from formatDraft_other_type [OF a, of digits_parser auction_block] a show ?thesis by simp
qed

text \<open>
  C2 as stated fails: for the draft type \<open>Keeper Draft\<close> the result is a value, not an
  exception.
\<close>

theorem formatDraft_other_type_counterexample:
  "formatDraft digits_parser snake_block ''Keeper Draft'' = Inr (snake_block, None)"
  by (simp add: formatDraft_def)

text \<open>
  C3.  In the Snake, Offline and Autopick modes \<open>_formatDraft\<close> calls \<open>_formatDraftTable\<close>,
  which reads the unbound local name \<open>df\<close>: every block raises \<open>UnboundLocalError\<close>, here
  the block whose carrier row is \<open>ROUND 1\<close>.
\<close>

theorem formatDraft_snake_unbound:
  "formatDraft digits_parser snake_block ''Snake Draft'' = Inl UnboundLocalError"
  by (simp add: formatDraft_def formatDraftTable_def)

lemma formatDraftTable_unbound: "formatDraftTable P html = Inl UnboundLocalError"
  by (simp add: formatDraftTable_def)

lemma formatDraft_table_modes:
  assumes "draftType \<in> {''Snake Draft'', ''Offline Draft'', ''Autopick Draft''}"
  shows "formatDraft P df draftType = Inl UnboundLocalError"
  using assms by (auto simp: formatDraft_def formatDraftTable_def)

lemma draftTable_lines_example:
  "draftTable_lines digits_parser snake_block
     = Inr (\<lparr>columns = [IntL 0, IntL 1, IntL 2, StrL ''ROUND'', StrL ''PICK'', StrL ''MANAGER''],
             rws = [(1, [Str ''1'', Str smith_plain, Str ''Team A'',
                         Str ''1'', Num 1, Str ''Team A''])]\<rparr>,
            \<lparr>columns = draft_columns,
             rws = [(1, [Str ''1'', Num 1, Str ''Team A'', Str ''Smith'', Str ''NYY'',
                         Str ''OF'', Bool False])]\<rparr>)"
  by code_simp

section \<open>Player, team, position and keeper\<close>

lemma search_smith_plain:
  "re_search draft_reStr smith_plain
     = Some (0, 13, [(4, []), (3, ''OF''), (2, ''NYY''), (1, ''Smith'')])"
  by code_simp

lemma search_smith_keeper:
  "re_search draft_reStr smith_keeper
     = Some (0, 16, [(4, keeper_mark), (3, ''OF''), (2, ''NYY''), (1, ''Smith'')])"
  by code_simp

lemma positions_012:
  "positions (IntL 0) [IntL 0, IntL 1, IntL 2] = [0]"
  "positions (IntL 1) [IntL 0, IntL 1, IntL 2] = [1]"
  "positions (IntL 2) [IntL 0, IntL 1, IntL 2] = [2]"
  by code_simp+

lemma extract_smith:
  "extract_cell draft_reStr 4 (Str smith_plain)
     = [Str ''Smith'', Str ''NYY'', Str ''OF'', Str []]"
  "extract_cell draft_reStr 4 (Str smith_keeper)
     = [Str ''Smith'', Str ''NYY'', Str ''OF'', Str keeper_mark]"
  by (simp_all add: extract_cell_def search_smith_plain search_smith_keeper upt_conv_Cons)

lemma keeper_mark_ne: "keeper_mark \<noteq> []" "[] \<noteq> keeper_mark"
  by (simp_all add: keeper_mark_def)

text \<open>
  C9.  \<open>_formatAuctionDraftTable\<close> on a row whose player cell is \<open>Smith, NYY<nbsp>OF\<close>
  gives PLAYER \<open>Smith\<close>, TEAM \<open>NYY\<close>, POS \<open>OF\<close> and KEEPER \<open>False\<close>; with the trailing
  keeper mark \<open><nbsp><nbsp>K\<close> it gives the same player, team and position and KEEPER \<open>True\<close>.
  The row's label and its other two cells are arbitrary.
\<close>

theorem extraction_examples:
  "formatAuctionDraftTable
      \<lparr>columns = [IntL 0, IntL 1, IntL 2],
       rws = [(k, [a, Str smith_plain, b :: ('n::zero) cell])]\<rparr>
     = Inr \<lparr>columns = [StrL ''PLAYER'', StrL ''TEAM'', StrL ''POS'', StrL ''KEEPER''],
            rws = [(k, [Str ''Smith'', Str ''NYY'', Str ''OF'', Bool False])]\<rparr>
   \<and> formatAuctionDraftTable
      \<lparr>columns = [IntL 0, IntL 1, IntL 2],
       rws = [(k, [a, Str smith_keeper, b])]\<rparr>
     = Inr \<lparr>columns = [StrL ''PLAYER'', StrL ''TEAM'', StrL ''POS'', StrL ''KEEPER''],
            rws = [(k, [Str ''Smith'', Str ''NYY'', Str ''OF'', Bool True])]\<rparr>"
  unfolding formatAuctionDraftTable_def getcol_def
  apply (simp only: frame.simps positions_012 list.case and_then.simps column_at_def
      list.map prod.case cell_at_def)
  apply (simp add: extract_smith join_cols_def draft_groups_def pad_def getcol_def
      positions_def column_at_def cell_at_def setcol_def put_def keeper_mark_ne drop_cols_def)
  done

text \<open>
  The separators matter: with an ordinary space before the position the pattern finds no
  match, and the four derived cells are missing.
\<close>

lemma extraction_ordinary_space:
  "formatAuctionDraftTable
      \<lparr>columns = [IntL 0, IntL 1, IntL 2], rws = [(k, [a, Str ''Smith, NYY OF'', b :: int cell])]\<rparr>
     = Inr \<lparr>columns = [StrL ''PLAYER'', StrL ''TEAM'', StrL ''POS'', StrL ''KEEPER''],
            rws = [(k, [NaN, NaN, NaN, NaN])]\<rparr>"
  by code_simp

section \<open>Rows that do not match the pattern\<close>

text \<open>
  \<open>str.extract\<close> itself is soft: the row without a match gets \<open>NaN\<close> in every derived
  column.
\<close>

lemma stats_extraction_soft:
  "map (extract_cell stats_reStr 4)
     [Str (''Smith, NYY'' @ [nbsp] @ ''1B, OF''), Str ''Jones BOS'' :: int cell]
     = [[Str ''Smith'', Str ''NYY'', Str ''1B, OF'', Str []], [NaN, NaN, NaN, NaN]]"
  by code_simp

text \<open>
  C7.  In \<open>_formatActiveStatsTable\<close> the row without a match has \<open>NaN\<close> for \<open>POS\<close>, and
  line 144 calls \<open>x.split(', ')\<close> on that float: the whole table fails with
  \<open>AttributeError\<close>.
\<close>

theorem formatActiveStatsTable_unmatched_row:
  "formatActiveStatsTable digits_parser stats_page = Inl AttributeError"
  by code_simp

text \<open>
  The auction path does what C7 says: the pick whose player cell does not match keeps its
  row, with \<open>NaN\<close> for PLAYER, TEAM, POS and KEEPER.
\<close>

lemma auction_unmatched_row:
  "formatAuctionTable digits_parser auction_block
     = Inr (\<lparr>columns = [IntL 0, IntL 1, IntL 2, StrL ''MANAGER'', StrL ''PICK'', StrL ''PRICE''],
             rws = [(1, [Str ''1'', Str smith_plain, Str ''$5'', Str [], Num 1, Num 5]),
                    (2, [Str ''2'', Str (''Jones, BOS'' @ [nbsp] @ ''SP'' @ [nbsp, nbsp] @ ''K''),
                         Str ''$12'', Str [], Num 2, Num 12]),
                    (3, [Str ''3'', Str ''Free agent'', Str ''$1'', Str [], Num 3, Num 1])]\<rparr>,
            \<lparr>columns = auction_columns,
             rws = [(1, [Str [], Str ''Smith'', Num 1, Str ''NYY'', Str ''OF'', Num 5, Bool False]),
                    (2, [Str [], Str ''Jones'', Num 2, Str ''BOS'', Str ''SP'', Num 12, Bool True]),
                    (3, [Str [], NaN, Num 3, NaN, NaN, Num 1, NaN])]\<rparr>)"
  by code_simp

section \<open>Transactions: a drop under the type Add/Drop\<close>

text \<open>
  The type matches the add+drop key, and \<open>findall\<close> finds one match in the detail text:
  the drop, with the three groups of the add empty.
\<close>

lemma drop_detail_matches:
  "re_match (lit addDropKey) addDropKey
   \<and> findall addDropStr 6 drop_detail = [[''PlayerA'', ''PlayerB'', ''Waivers'', [], [], []]]"
  by code_simp

text \<open>
  C8.  Line 313 then reads \<open>x[1]\<close>, the second match, which does not exist: formatting
  the page fails with \<open>IndexError\<close>.
\<close>

theorem formatTransactionTable_drop_only:
  "formatTransactionTable transaction_page transaction_tds = Inl IndexError"
  by code_simp

text \<open>
  With both clauses in the detail text the lambda of line 313 returns: the drop as
  (FROM, PLAYER, TO), and for the add the slice \<open>x[1][:3:-1]\<close>, which keeps two of its
  three groups.
\<close>

lemma addDrop_pair_both_clauses:
  "addDrop_pair (Tuples (findall addDropStr 6
      (''TeamA dropped Joe Smith, NYY OF to Waivers ''
       @ ''TeamA added Bob Jones, BOS SP from Free Agency'')) :: int cell)
     = Inr (Tuples [[''TeamA'', ''Joe Smith'', ''Waivers''], [''Free Agency'', ''Bob Jones'']])"
  by code_simp

section \<open>Facts about the frame operations\<close>


lemma const_colI:
  assumes "\<And>k r i. (k, r) \<in> set (rws df) \<Longrightarrow> i < length (columns df) \<Longrightarrow> columns df ! i = l
             \<Longrightarrow> cell_at r i = v"
  shows "const_col df l v"
  using assms by (auto simp: const_col_def)

lemma const_colD:
  assumes "const_col df l v" "(k, r) \<in> set (rws df)" "i < length (columns df)"
    "columns df ! i = l"
  shows "cell_at r i = v"
  using assms by (auto simp: const_col_def)

lemma cell_at_map: "cell_at (map f xs) j = (if j < length xs then f (xs ! j) else NaN)"
  by (simp add: cell_at_def)

lemma cell_at_pad: "i < n \<Longrightarrow> cell_at (pad n r) i = cell_at r i"
  by (simp add: pad_def cell_at_map)

lemma length_pad: "length (pad n r) = n"
  by (simp add: pad_def)

lemma cell_at_append_pad: "i < n \<Longrightarrow> cell_at (pad n r @ e) i = cell_at r i"
  by (simp add: cell_at_def pad_def nth_append)

lemma collect_Inr_length: "collect xs = Inr ys \<Longrightarrow> length ys = length xs"
  by (induction xs arbitrary: ys) (auto simp: and_then_Inr)

lemma to_numeric_length: "to_numeric P cs = Inr vs \<Longrightarrow> length vs = length cs"
  by (auto simp: to_numeric_def split: if_splits)

lemma getcol_Inr:
  assumes "getcol df l = Inr ser"
  shows "\<exists>i. positions l (columns df) = [i] \<and> ser = column_at df i"
  using assms by (auto simp: getcol_def split: list.splits)

lemma column_at_fst: "map fst (column_at df i) = index df"
  by (simp add: column_at_def index_def case_prod_beta)

lemma column_at_length: "length (column_at df i) = length (rws df)"
  by (simp add: column_at_def)

lemma getcol_length: "getcol df l = Inr ser \<Longrightarrow> length ser = length (rws df)"
  by (auto dest!: getcol_Inr simp: column_at_length)

lemma getcol_fst: "getcol df l = Inr ser \<Longrightarrow> map fst ser = index df"
  by (auto dest!: getcol_Inr simp: column_at_fst)

lemma map_zip_fst:
  assumes "length rs = length vs"
  shows "map (\<lambda>x. g (fst x)) (zip rs vs) = map g rs"
  using assms by (induction rs vs rule: list_induct2) auto

lemma index_setcol: "length vs = length (rws df) \<Longrightarrow> index (setcol df l vs) = index df"
  by (simp add: setcol_def index_def case_prod_beta comp_def map_zip_fst)

lemma index_setcol_const: "index (setcol_const df l v) = index df"
  by (simp add: setcol_const_def index_setcol)

lemma length_rws_index: "length (rws df) = length (index df)"
  by (simp add: index_def)

lemma columns_setcol:
  "columns (setcol df l vs) = (if l \<in> set (columns df) then columns df else columns df @ [l])"
  by (simp add: setcol_def)

lemma drop_rows_Inr:
  assumes "drop_rows df ls = Inr df'"
  shows "columns df' = columns df" "rws df' = filter (\<lambda>(k, r). k \<notin> set ls) (rws df)"
    "index df' = filter (\<lambda>k. k \<notin> set ls) (index df)"
  using assms
  by (auto simp: drop_rows_def index_def filter_map comp_def case_prod_unfold split: if_splits)

lemma join_cols_Inr:
  assumes "join_cols df ls ext = Inr df'"
  shows "columns df' = columns df @ ls"
    "rws df' = map (\<lambda>((k, r), e). (k, pad (length (columns df)) r @ e)) (zip (rws df) ext)"
    "set ls \<inter> set (columns df) = {}"
  using assms by (auto simp: join_cols_def list_ex_iff split: if_splits)

lemma index_join_cols:
  assumes "join_cols df ls ext = Inr df'" "length ext = length (rws df)"
  shows "index df' = index df"
  using assms by (simp add: join_cols_Inr index_def case_prod_beta comp_def map_zip_fst)

lemma map_nth_filter: "map ((!) cs) (filter (\<lambda>i. P (cs ! i)) [0..<length cs]) = filter P cs"
proof -
  have "filter P cs = filter P (map ((!) cs) [0..<length cs])" by (simp add: map_nth)
  also have "\<dots> = map ((!) cs) (filter (P \<circ> (!) cs) [0..<length cs])" by (simp only: filter_map)
  finally show ?thesis by (simp add: comp_def)
qed

lemma drop_cols_Inr:
  assumes "drop_cols df ls = Inr df'"
  shows "columns df' = filter (\<lambda>l. l \<notin> set ls) (columns df)" "index df' = index df"
    "rws df' = map (\<lambda>(k, r). (k, map (cell_at r)
                 (filter (\<lambda>i. columns df ! i \<notin> set ls) [0 ..< length (columns df)]))) (rws df)"
  using assms
  by (auto simp: drop_cols_def Let_def index_def case_prod_beta comp_def
      map_nth_filter [where P = "\<lambda>l. l \<notin> set ls"] split: if_splits)

lemma take_cols_Inr:
  assumes "take_cols df ls = Inr df'"
  shows "columns df' = map ((!) (columns df)) (concat (map (\<lambda>l. positions l (columns df)) ls))"
    "rws df' = map (\<lambda>(k, r). (k, map (cell_at r) (concat (map (\<lambda>l. positions l (columns df)) ls)))) (rws df)"
    "index df' = index df" "set ls \<subseteq> set (columns df)"
  using assms
  by (auto simp: take_cols_def Let_def index_def case_prod_beta comp_def list_all_iff
      split: if_splits)

lemma positions_props: "i \<in> set (positions l cs) \<longleftrightarrow> i < length cs \<and> cs ! i = l"
  by (auto simp: positions_def)

lemma positions_nonempty: "l \<in> set cs \<Longrightarrow> positions l cs \<noteq> []"
  by (auto simp: positions_def filter_empty_conv in_set_conv_nth)

lemma positions_append_other: "l \<noteq> l' \<Longrightarrow> positions l (cs @ [l']) = positions l cs"
  by (auto simp: positions_def nth_append intro!: filter_cong)

lemma cell_at_put_other:
  assumes "i < length cs" "cs ! i \<noteq> l'"
  shows "cell_at (put cs l' r v') i = cell_at r i"
  using assms by (simp add: put_def cell_at_map cell_at_append_pad)

lemma cell_at_put_same:
  assumes "i < length (if l' \<in> set cs then cs else cs @ [l'])"
    "(if l' \<in> set cs then cs else cs @ [l']) ! i = l'"
  shows "cell_at (put cs l' r v') i = v'"
proof (cases "l' \<in> set cs")
  case True
  with assms show ?thesis by (simp add: put_def cell_at_map)
next
  case False
  with assms have "i = length cs"
    by (cases "i < length cs") (auto simp: nth_append)
  with False show ?thesis by (simp add: put_def cell_at_def length_pad nth_append)
qed

lemma rws_setcol_mem:
  assumes "(k, r') \<in> set (rws (setcol df l' vs))"
  shows "\<exists>r v'. (k, r) \<in> set (rws df) \<and> r' = put (columns df) l' r v'"
  using assms by (auto simp: setcol_def dest: set_zip_leftD)

lemma const_col_setcol_const: "const_col (setcol_const df l v) l v"
proof (rule const_colI)
  fix k r' i
  assume m: "(k, r') \<in> set (rws (setcol_const df l v))"
    and i: "i < length (columns (setcol_const df l v))" "columns (setcol_const df l v) ! i = l"
  from m obtain r v' where "r' = put (columns df) l r v'" "v' \<in> set (replicate (length (rws df)) v)"
    by (auto simp: setcol_const_def setcol_def dest: set_zip_rightD)
  then have r': "r' = put (columns df) l r v" by auto
  from i show "cell_at r' i = v"
    unfolding r' by (intro cell_at_put_same) (simp_all add: setcol_const_def columns_setcol)
qed

lemma const_col_setcol_other:
  assumes "const_col df l v" "l \<noteq> l'"
  shows "const_col (setcol df l' vs) l v"
proof (rule const_colI)
  fix k r' i
  assume m: "(k, r') \<in> set (rws (setcol df l' vs))"
    and i: "i < length (columns (setcol df l' vs))" "columns (setcol df l' vs) ! i = l"
  from rws_setcol_mem [OF m] obtain r v' where
    r: "(k, r) \<in> set (rws df)" "r' = put (columns df) l' r v'" by blast
  from i assms(2) have i': "i < length (columns df)" "columns df ! i = l"
    by (auto simp: columns_setcol nth_append split: if_splits)
  with assms(2) have "cell_at r' i = cell_at r i"
    unfolding r(2) by (intro cell_at_put_other) auto
  also from assms(1) r(1) i' have "cell_at r i = v" by (rule const_colD)
  finally show "cell_at r' i = v" .
qed

lemma const_col_drop_rows:
  assumes "const_col df l v" "drop_rows df ls = Inr df'"
  shows "const_col df' l v"
  using assms by (auto simp: const_col_def drop_rows_Inr(1,2))

lemma const_col_join_cols:
  assumes "const_col df l v" "join_cols df ls ext = Inr df'" "l \<notin> set ls"
  shows "const_col df' l v"
proof (rule const_colI)
  fix k r' i
  assume m: "(k, r') \<in> set (rws df')" and i: "i < length (columns df')" "columns df' ! i = l"
  from m obtain r e where r: "(k, r) \<in> set (rws df)" "r' = pad (length (columns df)) r @ e"
    by (auto simp: join_cols_Inr [OF assms(2)] dest: set_zip_leftD)
  from i assms(3) have i': "i < length (columns df)" "columns df ! i = l"
    by (auto simp: join_cols_Inr [OF assms(2)] nth_append split: if_splits)
  have "cell_at r' i = cell_at r i" unfolding r(2) using i'(1) by (rule cell_at_append_pad)
  also from assms(1) r(1) i' have "cell_at r i = v" by (rule const_colD)
  finally show "cell_at r' i = v" .
qed

text \<open>Frames whose columns are a selection of positions of another frame.\<close>

lemma const_col_positions:
  assumes "const_col df l v"
    and "columns df' = map ((!) (columns df)) ps"
    and "rws df' = map (\<lambda>(k, r). (k, map (cell_at r) ps)) (rws df)"
    and "\<forall>p \<in> set ps. p < length (columns df)"
  shows "const_col df' l v"
proof (rule const_colI)
  fix k r' i
  assume m: "(k, r') \<in> set (rws df')" and i: "i < length (columns df')" "columns df' ! i = l"
  from m obtain r where r: "(k, r) \<in> set (rws df)" "r' = map (cell_at r) ps"
    by (auto simp: assms(3))
  from i have i': "i < length ps" "columns df ! (ps ! i) = l" by (simp_all add: assms(2))
  with assms(4) have "ps ! i < length (columns df)" by simp
  with assms(1) r(1) i' have "cell_at r (ps ! i) = v" by (auto intro: const_colD)
  with i' show "cell_at r' i = v" by (simp add: r(2) cell_at_map)
qed

lemma const_col_drop_cols:
  assumes "const_col df l v" "drop_cols df ls = Inr df'"
  shows "const_col df' l v"
proof (rule const_col_positions [OF assms(1)])
  let ?ps = "filter (\<lambda>i. columns df ! i \<notin> set ls) [0 ..< length (columns df)]"
  show "columns df' = map ((!) (columns df)) ?ps"
    by (simp add: drop_cols_Inr(1) [OF assms(2)] map_nth_filter [where P = "\<lambda>l. l \<notin> set ls"])
  show "rws df' = map (\<lambda>(k, r). (k, map (cell_at r) ?ps)) (rws df)"
    by (rule drop_cols_Inr(3) [OF assms(2)])
  show "\<forall>p \<in> set ?ps. p < length (columns df)" by simp
qed

lemma const_col_take_cols:
  assumes "const_col df l v" "take_cols df ls = Inr df'"
  shows "const_col df' l v"
proof (rule const_col_positions [OF assms(1)])
  let ?ps = "concat (map (\<lambda>l. positions l (columns df)) ls)"
  show "columns df' = map ((!) (columns df)) ?ps" by (rule take_cols_Inr(1) [OF assms(2)])
  show "rws df' = map (\<lambda>(k, r). (k, map (cell_at r) ?ps)) (rws df)"
    by (rule take_cols_Inr(2) [OF assms(2)])
  show "\<forall>p \<in> set ?ps. p < length (columns df)" by (auto simp: positions_props)
qed

lemma length_rws_setcol:
  "length vs = length (rws df) \<Longrightarrow> length (rws (setcol df l vs)) = length (rws df)"
  by (simp add: setcol_def)

lemma length_rws_eq_index: "index df' = index df \<Longrightarrow> length (rws df') = length (rws df)"
  by (metis length_rws_index)

lemma formatAuctionDraftTable_Inr:
  assumes "formatAuctionDraftTable df = Inr df'"
  shows "index df' = index df"
    and "const_col df l v \<Longrightarrow> l \<notin> set (map StrL draft_groups) \<Longrightarrow> const_col df' l v"
proof -
  from assms obtain c1 df1 k1 k2 where
    c1: "getcol df (IntL 1) = Inr c1"
    and j: "join_cols df (map StrL draft_groups)
              (map (\<lambda>(k, c). extract_cell draft_reStr 4 c) c1) = Inr df1"
    and k1: "getcol df1 (StrL ''KEEPER'') = Inr k1"
    and k2: "getcol (setcol df1 (StrL ''KEEPER'')
                (map (\<lambda>(k, c). if c = Str keeper_mark then Bool True else c) k1))
              (StrL ''KEEPER'') = Inr k2"
    and d: "drop_cols (setcol (setcol df1 (StrL ''KEEPER'')
                (map (\<lambda>(k, c). if c = Str keeper_mark then Bool True else c) k1))
              (StrL ''KEEPER'') (map (\<lambda>(k, c). if \<not> truthy c then Bool False else c) k2))
             [IntL 0, IntL 1, IntL 2] = Inr df'"
    unfolding formatAuctionDraftTable_def Let_def and_then_Inr by blast
  let ?df2 = "setcol df1 (StrL ''KEEPER'')
                (map (\<lambda>(k, c). if c = Str keeper_mark then Bool True else c) k1)"
  let ?df3 = "setcol ?df2 (StrL ''KEEPER'')
                (map (\<lambda>(k, c). if \<not> truthy c then Bool False else c) k2)"
  have i1: "index df1 = index df"
    using j by (rule index_join_cols) (simp add: getcol_length [OF c1])
  have i2: "index ?df2 = index df1"
    by (rule index_setcol) (simp add: getcol_length [OF k1])
  have i3: "index ?df3 = index ?df2"
    by (rule index_setcol) (simp add: getcol_length [OF k2])
  from drop_cols_Inr(2) [OF d] i1 i2 i3 show "index df' = index df" by simp
  assume cc: "const_col df l v" and l: "l \<notin> set (map StrL draft_groups)"
  from l have lk: "l \<noteq> StrL ''KEEPER''" by (auto simp: draft_groups_def)
  from cc j l have "const_col df1 l v" by (rule const_col_join_cols)
  then have "const_col ?df2 l v" using lk by (rule const_col_setcol_other)
  then have "const_col ?df3 l v" using lk by (rule const_col_setcol_other)
  then show "const_col df' l v" using d by (rule const_col_drop_cols)
qed

lemma ix_Inr_mem: "ix ser k = Inr v \<Longrightarrow> (k, v) \<in> set ser"
  by (auto simp: ix_def split: list.splits dest: filter_eq_ConsD)


section \<open>Auction blocks: the manager\<close>

lemma auction_block_run:
  "formatAuctionTable digits_parser auction_block = Inr (auction_block_left, auction_block_out)"
  by code_simp

text \<open>
  C4, as the code has it.  When \<open>_formatAuctionTable\<close> returns, the manager it has
  propagated is \<open>df[0].ix[0]\<close>, the first cell of the carrier row (the row labelled 0).
  The first column of the result is \<open>MANAGER\<close>; it holds that value in every row, and the
  rows of the result are the rows of the block without the carrier row, in order.
\<close>

theorem formatAuctionTable_manager:
  assumes "formatAuctionTable P df = Inr (df', out)"
  shows "\<exists>c0 manager. getcol df (IntL 0) = Inr c0 \<and> ix c0 0 = Inr manager
           \<and> hd (columns out) = StrL ''MANAGER''
           \<and> column_at out 0 = map (\<lambda>k. (k, manager)) (filter (\<lambda>k. k \<noteq> 0) (index df))"
proof -
  from assms obtain c0 manager df2 c0' pick c2 stripped price df5 where
    c0: "getcol df (IntL 0) = Inr c0" and m: "ix c0 0 = Inr manager"
    and d: "drop_rows (setcol_const df (StrL ''MANAGER'') manager) [0] = Inr df2"
    and c0': "getcol df2 (IntL 0) = Inr c0'"
    and pick: "to_numeric P (map snd c0') = Inr pick"
    and c2: "getcol (setcol df2 (StrL ''PICK'') pick) (IntL 2) = Inr c2"
    and st: "collect (map (\<lambda>(k, c). slice1 c) c2) = Inr stripped"
    and price: "to_numeric P stripped = Inr price"
    and f: "formatAuctionDraftTable
              (setcol (setcol df2 (StrL ''PICK'') pick) (StrL ''PRICE'') price) = Inr df5"
    and t: "take_cols df5 auction_columns = Inr out"
    and df': "df' = setcol (setcol df2 (StrL ''PICK'') pick) (StrL ''PRICE'') price"
    unfolding formatAuctionTable_def Let_def and_then_Inr by blast
  let ?M = "StrL ''MANAGER''"
  let ?df1 = "setcol_const df ?M manager"
  let ?df3 = "setcol df2 (StrL ''PICK'') pick"
  let ?df4 = "setcol ?df3 (StrL ''PRICE'') price"
  have lp: "length pick = length (rws df2)"
    using to_numeric_length [OF pick] getcol_length [OF c0'] by simp
  have i2: "index df2 = filter (\<lambda>k. k \<noteq> 0) (index df)"
    using drop_rows_Inr(3) [OF d] by (simp add: index_setcol_const)
  have i3: "index ?df3 = index df2" using lp by (rule index_setcol)
  have lpr: "length price = length (rws ?df3)"
    using to_numeric_length [OF price] collect_Inr_length [OF st] getcol_length [OF c2] by simp
  have i4: "index ?df4 = index ?df3" using lpr by (rule index_setcol)
  have i5: "index df5 = index ?df4" using f by (rule formatAuctionDraftTable_Inr(1))
  have io: "index out = filter (\<lambda>k. k \<noteq> 0) (index df)"
    using take_cols_Inr(3) [OF t] i2 i3 i4 i5 by simp
  have "const_col ?df1 ?M manager" by (rule const_col_setcol_const)
  then have "const_col df2 ?M manager" using d by (rule const_col_drop_rows)
  then have "const_col ?df3 ?M manager" by (rule const_col_setcol_other) simp
  then have "const_col ?df4 ?M manager" by (rule const_col_setcol_other) simp
  then have "const_col df5 ?M manager"
    by (rule formatAuctionDraftTable_Inr(2) [OF f]) (simp add: draft_groups_def)
  then have co: "const_col out ?M manager" using t by (rule const_col_take_cols)
  have "?M \<in> set (columns df5)"
    using take_cols_Inr(4) [OF t] by (auto simp: auction_columns_def)
  then obtain p ps where ps: "positions ?M (columns df5) = p # ps"
    using positions_nonempty by (cases "positions ?M (columns df5)") auto
  then have "p \<in> set (positions ?M (columns df5))" by simp
  then have p: "p < length (columns df5)" "columns df5 ! p = ?M"
    by (simp_all add: positions_props)
  have cols: "columns out = ?M # tl (columns out)" "columns out \<noteq> []"
    using take_cols_Inr(1) [OF t] ps p by (simp_all add: auction_columns_def)
  then have h: "hd (columns out) = ?M" by (metis list.sel(1))
  have n0: "0 < length (columns out)" "columns out ! 0 = ?M"
    using cols by (simp, metis nth_Cons_0)
  have "column_at out 0 = map (\<lambda>k. (k, manager)) (index out)"
    unfolding column_at_def index_def map_map
  proof (rule map_cong [OF refl])
    fix x assume x: "x \<in> set (rws out)"
    obtain k r where kr: "x = (k, r)" by (cases x)
    with x co n0 have "cell_at r 0 = manager" by (auto intro: const_colD)
    with kr show "(case x of (k, r) \<Rightarrow> (k, cell_at r 0)) = ((\<lambda>k. (k, manager)) \<circ> fst) x"
      by simp
  qed
  with io c0 m h show ?thesis by simp
qed

theorem formatAuctionTable_manager_witness:
  "formatAuctionTable digits_parser auction_block = Inr (auction_block_left, auction_block_out)
   \<and> getcol auction_block (IntL 0) = Inr [(0, Str []), (1, Str ''1''), (2, Str ''2''), (3, Str ''3'')]
   \<and> ix [(0, Str []), (1, Str ''1''), (2, Str ''2''), (3, Str ''3'' :: int cell)] 0 = Inr (Str [])
   \<and> hd (columns auction_block_out) = StrL ''MANAGER''
   \<and> column_at auction_block_out 0 = [(1, Str []), (2, Str []), (3, Str [])]"
proof -
  have g: "getcol auction_block (IntL 0)
             = Inr [(0, Str []), (1, Str ''1''), (2, Str ''2''), (3, Str ''3'')]"
    by code_simp
  have i: "ix [(0, Str []), (1, Str ''1''), (2, Str ''2''), (3, Str ''3'' :: int cell)] 0
             = Inr (Str [])"
    by code_simp
  have f: "filter (\<lambda>k. k \<noteq> 0) (index auction_block) = [1, 2, 3]"
    by code_simp
  from formatAuctionTable_manager [OF auction_block_run] g i f
  have "hd (columns auction_block_out) = StrL ''MANAGER''"
    and "column_at auction_block_out 0 = [(1, Str []), (2, Str []), (3, Str [])]"
    by auto
  with auction_block_run g i show ?thesis by simp
qed

text \<open>
  C4 as stated fails.  The carrier row of the block is \<open>["", "MANAGER_X", NaN]\<close>; the
  \<open>MANAGER\<close> column of the result holds the empty text of its first cell, not
  \<open>MANAGER_X\<close>.
\<close>

theorem formatAuctionTable_manager_counterexample:
  "rws auction_block ! 0 = (0, [Str [], Str ''MANAGER_X'', NaN])
   \<and> formatAuctionTable digits_parser auction_block
       = Inr (auction_block_left, auction_block_out)
   \<and> column_at auction_block_out 0 = [(1, Str []), (2, Str []), (3, Str [])]"
  by code_simp

section \<open>Formatting the same table twice\<close>

lemma positions_append_notin: "l \<notin> set xs \<Longrightarrow> positions l (cs @ xs) = positions l cs"
proof -
  assume l: "l \<notin> set xs"
  have "filter (\<lambda>i. (cs @ xs) ! i = l) [0 ..< length cs + length xs]
      = filter (\<lambda>i. (cs @ xs) ! i = l) [0 ..< length cs]
        @ filter (\<lambda>i. (cs @ xs) ! i = l) [length cs ..< length cs + length xs]"
    by (simp add: upt_add_eq_append [of 0] del: upt_add_eq_append)
  also have "filter (\<lambda>i. (cs @ xs) ! i = l) [length cs ..< length cs + length xs] = []"
    using l by (auto simp: filter_empty_conv nth_append)
  also have "filter (\<lambda>i. (cs @ xs) ! i = l) [0 ..< length cs] = filter (\<lambda>i. cs ! i = l) [0 ..< length cs]"
    by (auto simp: nth_append intro!: filter_cong)
  finally show ?thesis by (simp add: positions_def)
qed

lemma positions_setcol:
  "l \<noteq> l' \<Longrightarrow> positions l (columns (setcol df l' vs)) = positions l (columns df)"
  by (simp add: columns_setcol positions_append_notin)

lemma ix_KeyError: "k \<notin> fst ` set ser \<Longrightarrow> ix ser k = Inl KeyError"
proof -
  assume "k \<notin> fst ` set ser"
  then have "filter (\<lambda>(l, v). l = k) ser = []"
    by (force simp: filter_empty_conv)
  then show ?thesis by (simp add: ix_def)
qed

lemma auction_second_run:
  assumes "formatAuctionTable P df = Inr (df', out)"
  shows "formatAuctionTable P df' = Inl KeyError"
    and "index df' = filter (\<lambda>k. k \<noteq> 0) (index df)"
    and "set (columns df') = set (columns df) \<union> {StrL ''MANAGER'', StrL ''PICK'', StrL ''PRICE''}"
proof -
  from assms obtain c0 manager df2 c0' pick c2 stripped price df5 where
    c0: "getcol df (IntL 0) = Inr c0" and m: "ix c0 0 = Inr manager"
    and d: "drop_rows (setcol_const df (StrL ''MANAGER'') manager) [0] = Inr df2"
    and c0': "getcol df2 (IntL 0) = Inr c0'"
    and pick: "to_numeric P (map snd c0') = Inr pick"
    and c2: "getcol (setcol df2 (StrL ''PICK'') pick) (IntL 2) = Inr c2"
    and st: "collect (map (\<lambda>(k, c). slice1 c) c2) = Inr stripped"
    and price: "to_numeric P stripped = Inr price"
    and df': "df' = setcol (setcol df2 (StrL ''PICK'') pick) (StrL ''PRICE'') price"
    unfolding formatAuctionTable_def Let_def and_then_Inr by blast
  let ?df3 = "setcol df2 (StrL ''PICK'') pick"
  have lp: "length pick = length (rws df2)"
    using to_numeric_length [OF pick] getcol_length [OF c0'] by simp
  have i2: "index df2 = filter (\<lambda>k. k \<noteq> 0) (index df)"
    using drop_rows_Inr(3) [OF d] by (simp add: index_setcol_const)
  have i3: "index ?df3 = index df2" using lp by (rule index_setcol)
  have lpr: "length price = length (rws ?df3)"
    using to_numeric_length [OF price] collect_Inr_length [OF st] getcol_length [OF c2] by simp
  have i4: "index df' = index ?df3" unfolding df' using lpr by (rule index_setcol)
  show i: "index df' = filter (\<lambda>k. k \<noteq> 0) (index df)" using i2 i3 i4 by simp
  have cols2: "columns df2 = columns (setcol_const df (StrL ''MANAGER'') manager)"
    by (rule drop_rows_Inr(1) [OF d])
  show "set (columns df') = set (columns df) \<union> {StrL ''MANAGER'', StrL ''PICK'', StrL ''PRICE''}"
    unfolding df' by (auto simp: columns_setcol cols2 setcol_const_def)
  from getcol_Inr [OF c0] obtain p where p: "positions (IntL 0) (columns df) = [p]" by blast
  have "positions (IntL 0) (columns df') = positions (IntL 0) (columns df)"
    unfolding df' by (simp add: positions_setcol cols2 setcol_const_def)
  with p have g: "getcol df' (IntL 0) = Inr (column_at df' p)" by (simp add: getcol_def)
  have "fst ` set (column_at df' p) = set (index df')"
    using column_at_fst [of df' p] by (metis list.set_map)
  with i have "0 \<notin> fst ` set (column_at df' p)" by simp
  then have "ix (column_at df' p) 0 = Inl KeyError" by (rule ix_KeyError)
  with g show "formatAuctionTable P df' = Inl KeyError"
    by (simp add: formatAuctionTable_def)
qed

lemma drop_rows_nil: "drop_rows df [] = Inr df"
  by (simp add: drop_rows_def)

lemma standings_second_run:
  assumes "formatStandingsTable df cols = Inr (df', out)"
  shows "formatStandingsTable df' cols = Inr (df', out)"
    and "columns df' = cols"
    and "rws df' = filter (\<lambda>(k, r). k \<notin> fst ` {(k, r) \<in> set (rws df). cell_at r 0 = NaN}) (rws df)"
proof -
  let ?df1 = "df\<lparr>columns := cols\<rparr>"
  let ?nulls = "map fst (filter (\<lambda>(k, c). c = NaN) (column_at ?df1 0))"
  from assms have len: "length cols = length (columns df)" and ne: "cols \<noteq> []"
    and d: "drop_rows ?df1 ?nulls = Inr df'"
    and s: "select_cols df' not_numbered = Inr out"
    unfolding formatStandingsTable_def Let_def
    by (auto simp: and_then_Inr iloc_col_def split: if_splits)
  show c: "columns df' = cols" using drop_rows_Inr(1) [OF d] by simp
  have sn: "set ?nulls = fst ` {(k, r) \<in> set (rws df). cell_at r 0 = NaN}"
    by (auto simp: column_at_def image_iff) force+
  show r: "rws df' = filter (\<lambda>(k, r). k \<notin> fst ` {(k, r) \<in> set (rws df). cell_at r 0 = NaN}) (rws df)"
    using drop_rows_Inr(2) [OF d] sn by simp
  have "filter (\<lambda>(k, c). c = NaN) (column_at df' 0) = []"
    unfolding column_at_def filter_map r by (auto simp: filter_empty_conv image_iff)
  then have d2: "drop_rows df' (map fst (filter (\<lambda>(k, c). c = NaN) (column_at df' 0))) = Inr df'"
    by (simp add: drop_rows_nil)
  have e: "df'\<lparr>columns := cols\<rparr> = df'" using c by simp
  show "formatStandingsTable df' cols = Inr (df', out)"
    unfolding formatStandingsTable_def Let_def e
    using c ne d2 s by (simp add: iloc_col_def)
qed

lemma standings_page_run:
  "formatStandingsTable standings_page standings_columns
     = Inr (standings_page_left, standings_page_out)"
  by code_simp

text \<open>
  With column names that repeat a name, \<open>df.select\<close> cannot reindex: the call raises
  \<open>ValueError\<close> when it keeps some columns and drops others.  It returns when the names
  are unique, when it keeps every column and when it keeps none.
\<close>

lemma standings_repeated_columns:
  "formatStandingsTable standings_page repeated_columns = Inl ValueError"
  by code_simp

lemma select_cols_ValueError:
  "select_cols df crit = Inl ValueError \<longleftrightarrow>
     (\<exists>keep. collect (map crit (columns df)) = Inr keep
        \<and> \<not> distinct (columns df)
        \<and> (\<exists>i < length (columns df). keep ! i)
        \<and> (\<exists>i < length (columns df). \<not> keep ! i))
     \<or> collect (map crit (columns df)) = Inl ValueError"
proof -
  have a: "filter (\<lambda>i. keep ! i) [0 ..< n] = [] \<longleftrightarrow> \<not> (\<exists>i < n. keep ! i)" for keep n
    by (auto simp: filter_empty_conv)
  have b: "map (\<lambda>i. xs ! i) (filter (\<lambda>i. keep ! i) [0 ..< length xs]) = xs
             \<longleftrightarrow> \<not> (\<exists>i < length xs. \<not> keep ! i)" for keep and xs :: "label list"
  proof
    assume e: "map (\<lambda>i. xs ! i) (filter (\<lambda>i. keep ! i) [0 ..< length xs]) = xs"
    then have "length (filter (\<lambda>i. keep ! i) [0 ..< length xs]) = length [0 ..< length xs]"
      by (metis length_map length_upt minus_nat.diff_0)
    then have "filter (\<lambda>i. keep ! i) [0 ..< length xs] = [0 ..< length xs]"
      by (metis filter_True length_filter_less linorder_neq_iff)
    then have "\<forall>i \<in> set [0 ..< length xs]. keep ! i"
      by (metis filter_id_conv)
    then show "\<not> (\<exists>i < length xs. \<not> keep ! i)" by simp
  next
    assume "\<not> (\<exists>i < length xs. \<not> keep ! i)"
    then have "filter (\<lambda>i. keep ! i) [0 ..< length xs] = [0 ..< length xs]"
      by (simp add: filter_id_conv)
    then show "map (\<lambda>i. xs ! i) (filter (\<lambda>i. keep ! i) [0 ..< length xs]) = xs"
      by (simp add: map_nth)
  qed
  show ?thesis
    unfolding select_cols_def Let_def
    by (cases "collect (map crit (columns df))") (auto simp: a b)
qed

text \<open>
  C5, as the code has it.  \<open>_formatStandingsTable\<close> changes the frame it is given: it
  assigns the column names and drops every row that shares its label with a row whose
  first cell is missing.  Where it returns, run again on the frame it has left, with the
  same column names, it leaves the frame as it is and returns the same table (it does not
  return on column names of which one is repeated, one kept and one dropped).
  \<open>_formatAuctionTable\<close> changes
  its frame too: it adds the columns \<open>MANAGER\<close>, \<open>PICK\<close> and \<open>PRICE\<close> and drops the row
  labelled 0.  Run again on the frame it has left, it raises \<open>KeyError\<close> at
  \<open>df[0].ix[0]\<close>.
\<close>

theorem formatting_twice:
  "(formatStandingsTable df cols = Inr (df', out) \<longrightarrow>
      formatStandingsTable df' cols = Inr (df', out)
      \<and> columns df' = cols
      \<and> rws df' = filter (\<lambda>(k, r). k \<notin> fst ` {(k, r) \<in> set (rws df). cell_at r 0 = NaN})
                     (rws df))
   \<and> (formatAuctionTable P a = Inr (a', out') \<longrightarrow>
        formatAuctionTable P a' = Inl KeyError
        \<and> index a' = filter (\<lambda>k. k \<noteq> 0) (index a)
        \<and> set (columns a')
            = set (columns a) \<union> {StrL ''MANAGER'', StrL ''PICK'', StrL ''PRICE''})"
  using standings_second_run [of df cols df' out] auction_second_run [of P a a' out']
  by blast

theorem formatting_twice_witness:
  "formatStandingsTable standings_page standings_columns
     = Inr (standings_page_left, standings_page_out)
   \<and> formatStandingsTable standings_page_left standings_columns
     = Inr (standings_page_left, standings_page_out)
   \<and> columns standings_page_left = standings_columns
   \<and> formatAuctionTable digits_parser auction_block
     = Inr (auction_block_left, auction_block_out)
   \<and> formatAuctionTable digits_parser auction_block_left = Inl KeyError
   \<and> index auction_block_left = filter (\<lambda>k. k \<noteq> 0) (index auction_block)"
  using formatting_twice [of standings_page standings_columns standings_page_left
      standings_page_out digits_parser auction_block auction_block_left auction_block_out]
    standings_page_run auction_block_run
  by simp

text \<open>
  C5 as stated fails.  Standings formatting leaves its input without the spacer row and
  with new column names; auction formatting leaves its input without the carrier row, and
  the second run on it raises \<open>KeyError\<close> where the first returned a table.
\<close>

theorem formatting_twice_counterexample:
  "formatStandingsTable standings_page standings_columns
     = Inr (standings_page_left, standings_page_out)
   \<and> standings_page_left \<noteq> standings_page
   \<and> formatAuctionTable digits_parser auction_block
     = Inr (auction_block_left, auction_block_out)
   \<and> auction_block_left \<noteq> auction_block
   \<and> formatAuctionTable digits_parser auction_block_left = Inl KeyError"
  by code_simp

section \<open>Active stats: placeholders and numeric columns\<close>

lemma rws_read_html: "rws (read_html cs body) = zip (map int [0 ..< length body]) body"
  by (simp add: read_html_def)

lemma columns_read_html: "columns (read_html cs body) = cs"
  by (simp add: read_html_def)

lemma index_read_html: "index (read_html cs body) = map int [0 ..< length body]"
  by (simp add: read_html_def index_def)

lemma drop_last_read_html:
  assumes "body \<noteq> []"
  shows "drop_rows (read_html cs body) [int (length body) - 1] = Inr (read_html cs (butlast body))"
proof -
  from assms obtain xs x where b: "body = xs @ [x]" by (cases body rule: rev_cases) auto
  let ?m = "length xs"
  have z: "zip (map int [0 ..< Suc ?m]) (xs @ [x]) = zip (map int [0 ..< ?m]) xs @ [(int ?m, x)]"
    by simp
  have keep: "filter (\<lambda>(k, r). k \<noteq> int ?m) (zip (map int [0 ..< ?m]) xs) = zip (map int [0 ..< ?m]) xs"
    by (auto simp: filter_id_conv dest!: set_zip_leftD)
  have mem: "int ?m \<in> set (index (read_html cs body))"
    by (simp add: index_read_html b)
  show ?thesis
    using mem by (simp add: drop_rows_def read_html_def b z keep del: upt_Suc)
qed


lemma iloc_pos_int: "i < n \<Longrightarrow> iloc_pos n (int i) = Some i"
  by (simp add: iloc_pos_def)

lemma iloc_replace_read_html:
  "iloc_replace (read_html cs b)
      (map fst (filter (\<lambda>(k, c). c = Str ''--'') (column_at (read_html cs b) 2)))
     = Inr (read_html cs (map (dash_row (length cs)) b))"
proof -
  let ?n = "length b"
  define R where "R = map fst (filter (\<lambda>(k, c). c = Str ''--'') (column_at (read_html cs b) 2))"
  have rows: "set R = {int i | i. i < ?n \<and> cell_at (b ! i) 2 = Str ''--''}"
  proof (intro set_eqI iffI)
    fix p assume "p \<in> set R"
    then show "p \<in> {int i | i. i < ?n \<and> cell_at (b ! i) 2 = Str ''--''}"
      unfolding R_def by (auto simp: column_at_def rws_read_html set_zip image_iff)
  next
    fix p assume "p \<in> {int i | i. i < ?n \<and> cell_at (b ! i) 2 = Str ''--''}"
    then obtain i where i: "p = int i" "i < ?n" "cell_at (b ! i) 2 = Str ''--''" by blast
    then have "(int i, b ! i) \<in> set (rws (read_html cs b))"
      by (auto simp: rws_read_html set_zip intro!: exI [of _ i])
    with i show "p \<in> set R"
      unfolding R_def by (force simp: column_at_def image_iff)
  qed
  have ok: "list_all (\<lambda>p. iloc_pos ?n p \<noteq> None) R"
    unfolding list_all_iff rows by (auto simp: iloc_pos_int)
  have sel: "Some i \<in> iloc_pos ?n ` set R \<longleftrightarrow> cell_at (b ! i) 2 = Str ''--''"
    if "i < ?n" for i
  proof
    assume "Some i \<in> iloc_pos ?n ` set R"
    then obtain p where "p \<in> set R" "iloc_pos ?n p = Some i" by auto
    then obtain j where "j < ?n" "cell_at (b ! j) 2 = Str ''--''" "iloc_pos ?n (int j) = Some i"
      unfolding rows by auto
    then show "cell_at (b ! i) 2 = Str ''--''" by (simp add: iloc_pos_int)
  next
    assume "cell_at (b ! i) 2 = Str ''--''"
    with that have "int i \<in> set R" unfolding rows by auto
    moreover have "iloc_pos ?n (int i) = Some i" using that by (rule iloc_pos_int)
    ultimately show "Some i \<in> iloc_pos ?n ` set R" by force
  qed
  have "map (\<lambda>(i, (k, r)).
               if Some i \<in> set (map (iloc_pos ?n) R)
               then (k, replace_dashes (pad (length cs) r)) else (k, r))
            (zip [0 ..< ?n] (zip (map int [0 ..< ?n]) b))
        = zip (map int [0 ..< ?n]) (map (dash_row (length cs)) b)"
    by (rule nth_equalityI) (auto simp: sel dash_row_def)
  with ok have "iloc_replace (read_html cs b) R = Inr (read_html cs (map (dash_row (length cs)) b))"
    by (simp add: iloc_replace_def Let_def rws_read_html columns_read_html read_html_def
        cong: if_cong)
  then show ?thesis by (simp only: R_def)
qed

lemma no_text_no_dashes:
  assumes "\<not> dtype_object (map snd (column_at (read_html cs b) 2))"
  shows "map (dash_row n) b = b"
proof (rule map_idI)
  fix r assume "r \<in> set b"
  then obtain i where i: "i < length b" "b ! i = r" by (auto simp: in_set_conv_nth)
  then have "(int i, cell_at r 2) \<in> set (column_at (read_html cs b) 2)"
    by (auto simp: column_at_def rws_read_html set_zip image_iff intro!: exI [of _ i])
  with assms have "cell_at r 2 \<noteq> Str ''--''"
    by (force simp: dtype_object_def list_ex_iff split: cell.splits)
  then show "dash_row n r = r" by (simp add: dash_row_def)
qed

lemma cells_at_apply_cols:
  assumes "j < length (columns df)" "\<And>cs. length (f cs) = length cs"
  shows "cells_at (apply_cols f df) j = f (cells_at df j)"
proof (rule nth_equalityI)
  show "length (cells_at (apply_cols f df) j) = length (f (cells_at df j))"
    by (simp add: cells_at_def apply_cols_def Let_def assms(2))
  fix i assume "i < length (cells_at (apply_cols f df) j)"
  then have i: "i < length (rws df)" by (simp add: cells_at_def apply_cols_def Let_def)
  then show "cells_at (apply_cols f df) j ! i = f (cells_at df j) ! i"
    using assms by (simp add: cells_at_def apply_cols_def Let_def cell_at_map case_prod_beta)
       (simp add: cell_at_def)
qed

lemma length_to_numeric_ignore: "length (to_numeric_ignore P cs) = length cs"
  by (simp add: to_numeric_ignore_def)

lemma map_zip_snd_eq:
  assumes "length rs = length vs"
  shows "map (\<lambda>x. g (snd x)) (zip rs vs) = map g vs"
  using assms by (induction rs vs rule: list_induct2) auto

lemma index_apply_cols: "index (apply_cols f df) = index df"
  by (simp add: apply_cols_def Let_def index_def case_prod_beta comp_def map_zip_snd_eq)

lemma columns_apply_cols: "columns (apply_cols f df) = columns df"
  by (simp add: apply_cols_def Let_def)

lemma activeStats_clean_frames:
  assumes "body \<noteq> []" "2 < length cs"
  shows "activeStats_clean P (read_html cs body)
     = Inr (read_html cs (map (dash_row (length cs)) (butlast body)),
            apply_cols (to_numeric_ignore P)
              (read_html cs (map (dash_row (length cs)) (butlast body))))"
proof -
  let ?df1 = "read_html cs (butlast body)"
  have d: "drop_rows (read_html cs body) [int (length (rws (read_html cs body))) - 1] = Inr ?df1"
    using drop_last_read_html [OF assms(1), of cs] by (simp add: rws_read_html)
  have c: "iloc_col ?df1 2 = Inr (column_at ?df1 2)"
    using assms(2) by (simp add: iloc_col_def columns_read_html)
  have r: "(if dtype_object (map snd (column_at ?df1 2))
            then iloc_replace ?df1 (map fst (filter (\<lambda>(k, c). c = Str ''--'') (column_at ?df1 2)))
            else Inr ?df1)
           = Inr (read_html cs (map (dash_row (length cs)) (butlast body)))"
    by (simp add: iloc_replace_read_html no_text_no_dashes)
  show ?thesis
    unfolding activeStats_clean_def d and_then.simps c r ..
qed


text \<open>
  C6, as the code has it.  For a page of at least one row and three columns, lines
  134-139 drop the last row; in the rows whose third cell is \<open>"--"\<close>, and in no other
  row, every \<open>"--"\<close> cell becomes \<open>NaN\<close> (this is the frame \<open>df2\<close>); then every column
  is coerced on its own (the frame \<open>df3\<close>): a column all of whose cells are missing,
  numbers or texts that the parser reads becomes numeric, with the texts that read as
  missing turned into \<open>NaN\<close>, and a column with any other cell stays as it was.
\<close>

theorem activeStats_clean_read_html:
  assumes "body \<noteq> []" "2 < length cs"
  shows "\<exists>df2 df3. activeStats_clean P (read_html cs body) = Inr (df2, df3)
     \<and> df2 = read_html cs (map (dash_row (length cs)) (butlast body))
     \<and> columns df3 = cs \<and> index df3 = index df2
     \<and> (\<forall>j < length cs.
           cells_at df3 j =
             (if list_all (\<lambda>c. num_cell P c \<noteq> None) (cells_at df2 j)
              then map (\<lambda>c. the (num_cell P c)) (cells_at df2 j)
              else cells_at df2 j))"
proof -
  let ?df2 = "read_html cs (map (dash_row (length cs)) (butlast body))"
  let ?df3 = "apply_cols (to_numeric_ignore P) ?df2"
  have "cells_at ?df3 j = to_numeric_ignore P (cells_at ?df2 j)" if "j < length cs" for j
    using that by (intro cells_at_apply_cols) (simp_all add: columns_read_html length_to_numeric_ignore)
  then show ?thesis
    using activeStats_clean_frames [OF assms, of P]
    by (simp add: columns_apply_cols columns_read_html index_apply_cols to_numeric_ignore_def)
qed


lemma stats_page_dashes_run:
  "activeStats_clean digits_parser stats_page_dashes
     = Inr (stats_page_dashes_left, stats_page_dashes_coerced)"
  by code_simp

theorem activeStats_clean_read_html_witness:
  "dashes_body \<noteq> [] \<and> 2 < length dashes_columns
   \<and> activeStats_clean digits_parser (read_html dashes_columns dashes_body)
       = Inr (stats_page_dashes_left, stats_page_dashes_coerced)
   \<and> stats_page_dashes_left
       = read_html dashes_columns
           (map (dash_row (length dashes_columns)) (butlast dashes_body))
   \<and> columns stats_page_dashes_coerced = dashes_columns
   \<and> index stats_page_dashes_coerced = index stats_page_dashes_left
   \<and> cells_at stats_page_dashes_left 2 = [Str ''10'', NaN, Str ''4'']
   \<and> cells_at stats_page_dashes_coerced 2 = [Num 10, NaN, Num 4]
   \<and> cells_at stats_page_dashes_left 3 = [Str ''3'', NaN, Str ''--'']
   \<and> cells_at stats_page_dashes_coerced 3 = [Str ''3'', NaN, Str ''--'']"
proof -
  have a: "dashes_body \<noteq> []" by (simp add: dashes_body_def)
  have b: "2 < length dashes_columns" by (simp add: dashes_columns_def)
  have e: "activeStats_clean digits_parser (read_html dashes_columns dashes_body)
             = Inr (stats_page_dashes_left, stats_page_dashes_coerced)"
    using stats_page_dashes_run by (simp add: stats_page_dashes_def)
  from activeStats_clean_read_html [OF a b, of digits_parser] e
  have r: "stats_page_dashes_left
             = read_html dashes_columns
                 (map (dash_row (length dashes_columns)) (butlast dashes_body))"
    "columns stats_page_dashes_coerced = dashes_columns"
    "index stats_page_dashes_coerced = index stats_page_dashes_left"
    by auto
  have c: "cells_at stats_page_dashes_left 2 = [Str ''10'', NaN, Str ''4'']"
    "cells_at stats_page_dashes_coerced 2 = [Num 10, NaN, Num 4]"
    "cells_at stats_page_dashes_left 3 = [Str ''3'', NaN, Str ''--'']"
    "cells_at stats_page_dashes_coerced 3 = [Str ''3'', NaN, Str ''--'']"
    by code_simp+
  from a b e r c show ?thesis by blast
qed

text \<open>
  C6 as stated fails.  On the page \<open>stats_page_dashes\<close> the third player has 4 at bats
  and \<open>"--"\<close> for hits.  His third cell is not \<open>"--"\<close>, so the placeholder in the hits
  column (position 3) is still the text \<open>"--"\<close> before the coercion and after it, and the
  hits column stays text.
\<close>

theorem activeStats_clean_counterexample:
  "activeStats_clean digits_parser stats_page_dashes
     = Inr (stats_page_dashes_left, stats_page_dashes_coerced)
   \<and> cells_at stats_page_dashes_left 3 = [Str ''3'', NaN, Str ''--'']
   \<and> cells_at stats_page_dashes_coerced 3 = [Str ''3'', NaN, Str ''--'']"
  by code_simp

end
